theory Spec2Isabelle
  imports Main "HOL-Library.AList"
begin

section \<open>Python values: exceptions, strings, integers\<close>

text \<open>
  The crawler is Python. An exception is a value of type \<open>error\<close>; a computation that may
  raise returns \<open>error + 'a\<close> with \<open>Inl\<close> for the raised exception. A Python \<open>str\<close> is a
  \<open>string\<close> whose characters stand for code points below 256; on these, \<open>\d\<close>, \<open>\s\<close>,
  \<open>str.strip\<close> and case folding are as defined below.
\<close>

datatype error = AttributeError | ValueError | TypeError | ParserError | TransportError

definition is_space :: "char \<Rightarrow> bool" where
  "is_space c = (c \<in> set [CHR 0x09, CHR 0x0A, CHR 0x0B, CHR 0x0C, CHR 0x0D,
     CHR 0x1C, CHR 0x1D, CHR 0x1E, CHR 0x1F, CHR 0x20, CHR 0x85, CHR 0xA0])"

definition is_digit :: "char \<Rightarrow> bool" where
  "is_digit c = (c \<in> set ''0123456789'')"

definition lower :: "char \<Rightarrow> char" where
  "lower c =
     (let n = (of_char c :: nat)
      in if (65 \<le> n \<and> n \<le> 90) \<or> (192 \<le> n \<and> n \<le> 222 \<and> n \<noteq> 215)
         then char_of (n + 32) else c)"

definition strip :: "string \<Rightarrow> string" where
  "strip s = rev (dropWhile is_space (rev (dropWhile is_space s)))"

fun join :: "string \<Rightarrow> string list \<Rightarrow> string" where
  "join sep [] = []"
| "join sep [x] = x"
| "join sep (x # y # ys) = x @ sep @ join sep (y # ys)"

fun split_on :: "char \<Rightarrow> string \<Rightarrow> string list" where
  "split_on c [] = [[]]"
| "split_on c (x # xs) =
     (if x = c then [] # split_on c xs
      else (case split_on c xs of [] \<Rightarrow> [[x]] | w # ws \<Rightarrow> (x # w) # ws))"

definition replace_comma :: "string \<Rightarrow> string" where
  "replace_comma s = filter (\<lambda>c. c \<noteq> CHR '','') s"

text \<open>\<open>int(s)\<close> on a string: surrounding whitespace, an optional sign, digits with single
  underscores between them; anything else raises \<open>ValueError\<close>, and so do more than 4300
  digits (the default limit of CPython 3.11 and later).\<close>

definition digit_val :: "char \<Rightarrow> int" where
  "digit_val c = (case map_of (zip ''0123456789'' [0, 1, 2, 3, 4, 5, 6, 7, 8, 9]) c of
     Some v \<Rightarrow> v | None \<Rightarrow> 0)"

fun parse_digits :: "int \<Rightarrow> string \<Rightarrow> int option" where
  "parse_digits acc [] = Some acc"
| "parse_digits acc (c # cs) =
     (if is_digit c then parse_digits (10 * acc + digit_val c) cs
      else if c = CHR ''_'' then
        (case cs of [] \<Rightarrow> None | d # _ \<Rightarrow> if is_digit d then parse_digits acc cs else None)
      else None)"

definition parse_unsigned :: "string \<Rightarrow> error + int" where
  "parse_unsigned s =
     (case s of [] \<Rightarrow> Inl ValueError
      | d # _ \<Rightarrow> if is_digit d \<and> length (filter is_digit s) \<le> 4300
          then (case parse_digits 0 s of None \<Rightarrow> Inl ValueError | Some n \<Rightarrow> Inr n)
          else Inl ValueError)"

definition py_int :: "string \<Rightarrow> error + int" where
  "py_int s =
     (case strip s of [] \<Rightarrow> Inl ValueError
      | c # cs \<Rightarrow>
          if c = CHR ''-'' then (case parse_unsigned cs of Inl e \<Rightarrow> Inl e | Inr n \<Rightarrow> Inr (- n))
          else if c = CHR ''+'' then parse_unsigned cs
          else parse_unsigned (c # cs))"

text \<open>Decimal rendering with zero padding, as \<open>"%04d"\<close> and \<open>f"{n:07d}"\<close> do.\<close>

definition digit_char :: "nat \<Rightarrow> char" where
  "digit_char n = ''0123456789'' ! (n mod 10)"

fun digits10 :: "nat \<Rightarrow> string" where
  "digits10 n = (if n < 10 then [digit_char n] else digits10 (n div 10) @ [digit_char n])"

declare digits10.simps [simp del]

definition zero_pad :: "nat \<Rightarrow> nat \<Rightarrow> string" where
  "zero_pad w n = replicate (w - length (digits10 n)) CHR ''0'' @ digits10 n"

text \<open>
  \<open>valid_value_from_dict\<close>: the value under the key when the key is present and the value
  is truthy, else \<open>None\<close>. Every dictionary the crawler passes maps strings to strings
  (element attributes, regex group dictionaries, the parser's two result dictionaries), so
  a truthy value is a non-empty string. A dictionary is an association list.
\<close>

definition valid_value_from_dict :: "(string \<times> string) list \<Rightarrow> string \<Rightarrow> string option" where
  "valid_value_from_dict target_dict key =
     (case map_of target_dict key of
        None \<Rightarrow> None
      | Some v \<Rightarrow> if v \<noteq> [] then Some v else None)"

text \<open>\<open>normalize_text\<close>: strip every line, drop the empty ones, join with a newline. The
  two callers that pass \<open>[node.text]\<close> may pass \<open>None\<close>, on which \<open>raw_line.strip()\<close> raises
  \<open>AttributeError\<close>.\<close>

fun clean_lines :: "string option list \<Rightarrow> error + string list" where
  "clean_lines [] = Inr []"
| "clean_lines (None # xs) = Inl AttributeError"
| "clean_lines (Some raw_line # xs) =
     (case clean_lines xs of
        Inl e \<Rightarrow> Inl e
      | Inr ls \<Rightarrow> Inr (if strip raw_line \<noteq> [] then strip raw_line # ls else ls))"

definition normalize_text :: "string option list \<Rightarrow> error + string" where
  "normalize_text raw_str_list =
     (case clean_lines raw_str_list of Inl e \<Rightarrow> Inl e | Inr ls \<Rightarrow> Inr (join [CHR 0x0A] ls))"

section \<open>Regular expressions\<close>

text \<open>
  Python's \<open>re\<close> is a backtracking matcher. \<open>rmatch\<close> returns every way a pattern matches a
  prefix of the input, in the order the backtracking search tries them (greedy repetition
  first, alternatives left to right), each with the named groups it captured (latest first)
  and the rest of the input; \<open>re_match\<close> takes the first, as \<open>Pattern.match\<close> does. The flag
  is \<open>re.IGNORECASE\<close>.
\<close>

datatype regex =
    Eps
  | Lit char
  | OneOf string
  | Digit
  | NonDigit
  | Space
  | AnyChar
  | Seq regex regex
  | Alt regex regex
  | Star regex
  | Rep nat nat regex
  | Group string regex

type_synonym rresult = "(string \<times> string) list \<times> string"

definition one_char :: "(char \<Rightarrow> bool) \<Rightarrow> string \<Rightarrow> rresult list" where
  "one_char P s = (case s of [] \<Rightarrow> [] | x # xs \<Rightarrow> if P x then [([], xs)] else [])"

definition then_match :: "rresult list \<Rightarrow> (string \<Rightarrow> rresult list) \<Rightarrow> rresult list" where
  "then_match rs f = concat (map (\<lambda>(g1, s1). map (\<lambda>(g2, s2). (g2 @ g1, s2)) (f s1)) rs)"

fun star_iter :: "(string \<Rightarrow> rresult list) \<Rightarrow> nat \<Rightarrow> string \<Rightarrow> rresult list" where
  "star_iter f 0 s = [([], s)]"
| "star_iter f (Suc n) s =
     then_match (filter (\<lambda>(g1, s1). length s1 < length s) (f s)) (star_iter f n) @ [([], s)]"

fun rep_iter :: "(string \<Rightarrow> rresult list) \<Rightarrow> nat \<Rightarrow> nat \<Rightarrow> string \<Rightarrow> rresult list" where
  "rep_iter f lo 0 s = (if lo = 0 then [([], s)] else [])"
| "rep_iter f lo (Suc hi) s =
     then_match (f s) (rep_iter f (lo - 1) hi) @ (if lo = 0 then [([], s)] else [])"

primrec rmatch :: "bool \<Rightarrow> regex \<Rightarrow> string \<Rightarrow> rresult list" where
  "rmatch ic Eps s = [([], s)]"
| "rmatch ic (Lit c) s = one_char (\<lambda>x. if ic then lower x = lower c else x = c) s"
| "rmatch ic (OneOf cs) s = one_char (\<lambda>x. x \<in> set cs) s"
| "rmatch ic Digit s = one_char is_digit s"
| "rmatch ic NonDigit s = one_char (\<lambda>x. \<not> is_digit x) s"
| "rmatch ic Space s = one_char is_space s"
| "rmatch ic AnyChar s = one_char (\<lambda>x. x \<noteq> CHR 0x0A) s"
| "rmatch ic (Seq r1 r2) s = then_match (rmatch ic r1 s) (rmatch ic r2)"
| "rmatch ic (Alt r1 r2) s = rmatch ic r1 s @ rmatch ic r2 s"
| "rmatch ic (Star r) s = star_iter (rmatch ic r) (length s) s"
| "rmatch ic (Rep lo hi r) s = rep_iter (rmatch ic r) lo hi s"
| "rmatch ic (Group name r) s =
     map (\<lambda>(g, s'). ((name, take (length s - length s') s) # g, s')) (rmatch ic r s)"

definition re_match :: "bool \<Rightarrow> regex \<Rightarrow> string \<Rightarrow> rresult option" where
  "re_match ic r s = (case rmatch ic r s of [] \<Rightarrow> None | m # _ \<Rightarrow> Some m)"

fun lits :: "string \<Rightarrow> regex" where
  "lits [] = Eps"
| "lits [c] = Lit c"
| "lits (c # d # cs) = Seq (Lit c) (lits (d # cs))"

fun seqs :: "regex list \<Rightarrow> regex" where
  "seqs [] = Eps"
| "seqs [r] = r"
| "seqs (r # q # rs) = Seq r (seqs (q # rs))"

fun alts :: "regex list \<Rightarrow> regex" where
  "alts [] = Eps"
| "alts [r] = r"
| "alts (r # q # rs) = Alt r (alts (q # rs))"

definition Plus :: "regex \<Rightarrow> regex" where
  "Plus r = Seq r (Star r)"

text \<open>\<open>\d{1,3}(,\d{3})*\<close>, the number with thousands separators of the feedback phrase.\<close>

definition grouped_number :: regex where
  "grouped_number = Seq (Rep 1 3 Digit) (Star (Seq (Lit CHR '','') (Rep 3 3 Digit)))"

definition FOUND_HELPFUL_REGEX :: regex where
  "FOUND_HELPFUL_REGEX = seqs
     [Star NonDigit, Group ''helpful'' grouped_number,
      Plus Space, lits ''out'', Plus Space, lits ''of'', Plus Space,
      Group ''total'' grouped_number,
      Plus Space, lits ''found'', Plus Space, lits ''this'', Plus Space, lits ''helpful'',
      Star AnyChar]"

definition MAXIMUM_RATING_REGEX :: regex where
  "MAXIMUM_RATING_REGEX = seqs
     [Star NonDigit, Lit CHR ''/'', Group ''maximum_rating'' (Plus Digit), Star NonDigit]"

section \<open>The process locale and \<open>datetime.strptime\<close>\<close>

text \<open>
  \<open>locale.setlocale(locale.LC_TIME, "C")\<close> writes state of the whole process, and
  \<open>datetime.strptime\<close> reads the month names of the locale in force. The state is the
  name of the \<open>LC_TIME\<close> locale and its twelve full month names.
\<close>

record process_state =
  lc_time :: string
  month_name :: "string list"

definition C_month_name :: "string list" where
  "C_month_name = [''January'', ''February'', ''March'', ''April'', ''May'', ''June'',
     ''July'', ''August'', ''September'', ''October'', ''November'', ''December'']"

definition setlocale_LC_TIME_C :: "process_state \<Rightarrow> process_state" where
  "setlocale_LC_TIME_C st = st\<lparr>lc_time := ''C'', month_name := C_month_name\<rparr>"

text \<open>
  \<open>strptime(data_string, "%d %B %Y")\<close>, as \<open>_strptime\<close> computes it: the format becomes the
  regular expression \<open>(?P<d>3[0-1]|[1-2]\d|0[1-9]|[1-9]| [1-9])\s+(?P<B>...)\s+(?P<Y>\d\d\d\d)\<close>,
  where \<open>B\<close> lists the lower-cased month names, longest first; it is matched ignoring
  case; a failed match, unconverted trailing data and a day that the month does not have
  each raise \<open>ValueError\<close>.
\<close>

definition day_regex :: regex where
  "day_regex = alts
     [Seq (Lit CHR ''3'') (OneOf ''01''),
      Seq (OneOf ''12'') Digit,
      Seq (Lit CHR ''0'') (OneOf ''123456789''),
      OneOf ''123456789'',
      Seq (Lit CHR '' '') (OneOf ''123456789'')]"

definition seqToRE :: "string list \<Rightarrow> string \<Rightarrow> regex" where
  "seqToRE to_convert directive =
     (let sorted_values = sort_key (\<lambda>v. - int (length v)) to_convert
      in if list_all (\<lambda>v. v = []) sorted_values then Eps
         else Group directive (alts (map lits sorted_values)))"

definition f_month :: "process_state \<Rightarrow> string list" where
  "f_month st = [] # map (map lower) (month_name st)"

definition format_regex :: "process_state \<Rightarrow> regex" where
  "format_regex st = seqs
     [Group ''d'' day_regex, Plus Space, seqToRE (tl (f_month st)) ''B'', Plus Space,
      Group ''Y'' (seqs [Digit, Digit, Digit, Digit])]"

fun index_of :: "'a \<Rightarrow> 'a list \<Rightarrow> nat option" where
  "index_of x [] = None"
| "index_of x (y # ys) =
     (if x = y then Some 0 else (case index_of x ys of None \<Rightarrow> None | Some i \<Rightarrow> Some (Suc i)))"

definition is_leap :: "int \<Rightarrow> bool" where
  "is_leap y = (y mod 4 = 0 \<and> (y mod 100 \<noteq> 0 \<or> y mod 400 = 0))"

definition days_in_month :: "int \<Rightarrow> nat \<Rightarrow> int" where
  "days_in_month y m =
     (if m = 2 then (if is_leap y then 29 else 28)
      else if m \<in> set [4, 6, 9, 11] then 30 else 31)"

definition valid_date :: "int \<Rightarrow> nat \<Rightarrow> int \<Rightarrow> bool" where
  "valid_date y m d = (1 \<le> y \<and> y \<le> 9999 \<and> 1 \<le> m \<and> m \<le> 12 \<and> 1 \<le> d \<and> d \<le> days_in_month y m)"

definition group_int :: "(string \<times> string) list \<Rightarrow> string \<Rightarrow> error + int" where
  "group_int found_dict name =
     (case map_of found_dict name of None \<Rightarrow> Inl ValueError | Some v \<Rightarrow> py_int v)"

definition group_month :: "process_state \<Rightarrow> (string \<times> string) list \<Rightarrow> error + nat" where
  "group_month st found_dict =
     (case map_of found_dict ''B'' of
        None \<Rightarrow> Inr 1
      | Some b \<Rightarrow> (case index_of (map lower b) (f_month st) of
                    None \<Rightarrow> Inl ValueError | Some i \<Rightarrow> Inr i))"

definition strptime_d_B_Y :: "process_state \<Rightarrow> string \<Rightarrow> error + (int \<times> nat \<times> int)" where
  "strptime_d_B_Y st data_string =
     (case re_match True (format_regex st) data_string of
        None \<Rightarrow> Inl ValueError
      | Some (found_dict, rest) \<Rightarrow>
          if rest \<noteq> [] then Inl ValueError
          else (case group_int found_dict ''Y'' of Inl e \<Rightarrow> Inl e | Inr year \<Rightarrow>
               (case group_month st found_dict of Inl e \<Rightarrow> Inl e | Inr month \<Rightarrow>
               (case group_int found_dict ''d'' of Inl e \<Rightarrow> Inl e | Inr day \<Rightarrow>
                  if valid_date year month day then Inr (year, month, day)
                  else Inl ValueError))))"

definition isoformat :: "int \<times> nat \<times> int \<Rightarrow> string" where
  "isoformat ymd =
     (case ymd of (y, m, d) \<Rightarrow>
        zero_pad 4 (nat y) @ ''-'' @ zero_pad 2 m @ ''-'' @ zero_pad 2 (nat d))"

section \<open>URLs\<close>

text \<open>
  A \<open>yarl.URL\<close> is kept in parts. \<open>with_path\<close> replaces the path and drops query and
  fragment; \<open>with_query\<close> replaces the query; \<open>url_str\<close> is \<open>str(url)\<close>. The percent-quoting
  that yarl applies to characters outside the unreserved set is left out, so the parts are
  read as already quoted.
\<close>

record url =
  scheme :: string
  host :: string
  path :: string
  query :: "(string \<times> string) list"
  fragment :: string

definition BASE_IMDB_URL :: url where
  "BASE_IMDB_URL = \<lparr>scheme = ''https'', host = ''www.imdb.com'', path = ''/'', query = [],
     fragment = []\<rparr>"

definition RELATIVE_IMDB_USER_REVIEWS_URL :: "string \<Rightarrow> string" where
  "RELATIVE_IMDB_USER_REVIEWS_URL title_id = ''/title/'' @ title_id @ ''/reviews''"

definition with_path :: "url \<Rightarrow> string \<Rightarrow> url" where
  "with_path u p =
     u\<lparr>path := (case p of [] \<Rightarrow> [] | c # _ \<Rightarrow> if c = CHR ''/'' then p else CHR ''/'' # p),
       query := [], fragment := []\<rparr>"

definition with_query :: "url \<Rightarrow> (string \<times> string) list \<Rightarrow> url" where
  "with_query u q = u\<lparr>query := q\<rparr>"

definition url_str :: "url \<Rightarrow> string" where
  "url_str u =
     (if scheme u \<noteq> [] then scheme u @ '':'' else [])
     @ (if host u \<noteq> [] then ''//'' @ host u else []) @ path u
     @ (if query u \<noteq> [] then ''?'' @ join ''&'' (map (\<lambda>(k, v). k @ ''='' @ v) (query u)) else [])
     @ (if fragment u \<noteq> [] then ''#'' @ fragment u else [])"

section \<open>The document tree and the XPath queries\<close>

text \<open>
  An lxml node has a tag, attributes, the text before its first child, the text after
  its end tag (its tail) and children. A comment or processing instruction is a node
  whose tag is not a string (\<open>None\<close> here). A node handed out by lxml knows its place in
  the document: it is the element together with the path of frames up to the root, each
  frame being the parent with the siblings to the left (nearest first) and to the right.
\<close>

datatype element = Element
  (tag: "string option")
  (attrib: "(string \<times> string) list")
  (etext: "string option")
  (etail: "string option")
  (children: "element list")

datatype frame = Frame (lefts: "element list") (parent: element) (rights: "element list")

type_synonym node = "element \<times> frame list"

fun getprevious :: "node \<Rightarrow> node option" where
  "getprevious (e, []) = None"
| "getprevious (e, Frame [] p rs # ctx) = None"
| "getprevious (e, Frame (l # ls) p rs # ctx) = Some (l, Frame ls p (e # rs) # ctx)"

fun root_of :: "node \<Rightarrow> element" where
  "root_of (e, []) = e"
| "root_of (e, f # fs) = parent (last (f # fs))"

text \<open>All proper descendants of a node, in document order.\<close>

fun descs :: "frame list \<Rightarrow> element \<Rightarrow> node list"
  and descs_list :: "frame list \<Rightarrow> element \<Rightarrow> element list \<Rightarrow> element list \<Rightarrow> node list" where
  "descs ctx (Element t a x y cs) = descs_list ctx (Element t a x y cs) [] cs"
| "descs_list ctx p ls [] = []"
| "descs_list ctx p ls (c # rs) =
     (c, Frame ls p rs # ctx) # descs (Frame ls p rs # ctx) c @ descs_list ctx p (c # ls) rs"

definition is_xml_space :: "char \<Rightarrow> bool" where
  "is_xml_space c = (c \<in> set [CHR 0x20, CHR 0x09, CHR 0x0A, CHR 0x0D])"

fun split_ws :: "string \<Rightarrow> string \<Rightarrow> string list" where
  "split_ws w [] = (if w = [] then [] else [rev w])"
| "split_ws w (c # cs) =
     (if is_xml_space c then (if w = [] then split_ws [] cs else rev w # split_ws [] cs)
      else split_ws (c # w) cs)"

definition normalize_space :: "string \<Rightarrow> string" where
  "normalize_space s = join '' '' (split_ws [] s)"

fun starts_with :: "string \<Rightarrow> string \<Rightarrow> bool" where
  "starts_with [] s = True"
| "starts_with (p # ps) [] = False"
| "starts_with (p # ps) (c # cs) = (p = c \<and> starts_with ps cs)"

fun contains :: "string \<Rightarrow> string \<Rightarrow> bool" where
  "contains [] sub = (sub = [])"
| "contains (c # cs) sub = (starts_with sub (c # cs) \<or> contains cs sub)"

definition attr_string :: "element \<Rightarrow> string \<Rightarrow> string" where
  "attr_string e a = (case map_of (attrib e) a of None \<Rightarrow> [] | Some v \<Rightarrow> v)"

text \<open>
  \<open>xpath_descendant_contains_target_attribute_builder\<close> formats the expression
  \<open>[.]//descendant::T[contains(concat(" ", normalize-space(@A), " "), " X ")][//text()]\<close>.
  The expression is kept as its five parameters; \<open>xpath_elements\<close> and \<open>xpath_texts\<close>
  evaluate it on a node as \<open>node.xpath(...)\<close> does, the relative form from the node and
  the absolute form from the root of the node's document.
\<close>

record xpath_query =
  node_type :: string
  attribute :: string
  target :: string
  is_relative :: bool
  retrieve_texts :: bool

definition xpath_descendant_contains_target_attribute_builder ::
  "string \<Rightarrow> string \<Rightarrow> string \<Rightarrow> bool \<Rightarrow> bool \<Rightarrow> xpath_query" where
  "xpath_descendant_contains_target_attribute_builder nt a x rel txt =
     \<lparr>node_type = nt, attribute = a, target = x, is_relative = rel, retrieve_texts = txt\<rparr>"

definition elem_test :: "xpath_query \<Rightarrow> element \<Rightarrow> bool" where
  "elem_test q e =
     (tag e = Some (node_type q) \<and>
      contains ('' '' @ normalize_space (attr_string e (attribute q)) @ '' '')
        ('' '' @ target q @ '' ''))"

definition xpath_elements :: "node \<Rightarrow> xpath_query \<Rightarrow> node list" where
  "xpath_elements n q =
     filter (\<lambda>m. elem_test q (fst m))
       (if is_relative q then descs (snd n) (fst n)
        else (root_of n, []) # descs [] (root_of n))"

text \<open>The text nodes below the matching elements, in document order and once each: an
  element's text and the tails of its children are its text-node children; a comment's
  own text is not a text node.\<close>

definition opt_list :: "'a option \<Rightarrow> 'a list" where
  "opt_list x = (case x of None \<Rightarrow> [] | Some v \<Rightarrow> [v])"

fun texts_in :: "(element \<Rightarrow> bool) \<Rightarrow> bool \<Rightarrow> element \<Rightarrow> string list"
  and texts_in_list :: "(element \<Rightarrow> bool) \<Rightarrow> bool \<Rightarrow> element list \<Rightarrow> string list" where
  "texts_in P ins (Element t a x y cs) =
     (if ins \<and> t \<noteq> None then opt_list x else []) @ texts_in_list P ins cs"
| "texts_in_list P ins [] = []"
| "texts_in_list P ins (c # cs) =
     texts_in P (ins \<or> P c) c @ (if ins then opt_list (etail c) else [])
     @ texts_in_list P ins cs"

definition xpath_texts :: "node \<Rightarrow> xpath_query \<Rightarrow> string list" where
  "xpath_texts n q =
     (if is_relative q then texts_in (elem_test q) False (fst n)
      else texts_in_list (elem_test q) False [root_of n])"

text \<open>The query \<open>Q/.//a[string(@href)]\<close>: the \<open>a\<close> elements with a non-empty \<open>href\<close> that
  lie below an element matching \<open>Q\<close>, \<open>Q\<close> relative to the node.\<close>

definition xpath_anchors_below :: "node \<Rightarrow> xpath_query \<Rightarrow> node list" where
  "xpath_anchors_below n q =
     filter (\<lambda>m. tag (fst m) = Some ''a'' \<and> attr_string (fst m) ''href'' \<noteq> [] \<and>
                 list_ex (\<lambda>f. elem_test q (parent f))
                   (take (length (snd m) - length (snd n) - 1) (snd m)))
       (descs (snd n) (fst n))"

section \<open>The review record and the collaborators\<close>

record imdb_user_review =
  review_id :: "string option"
  review_date :: "string option"
  review_title :: "string option"
  title_id :: string
  title_name :: "string option"
  title_relative_url :: "string option"
  total_feedback :: "int option"
  helpful_feedback :: "int option"
  maximum_rating :: "int option"
  user_rating :: "int option"
  has_spoilers :: bool
  user_name :: "string option"
  user_relative_url :: "string option"
  content :: "string option"

record response =
  status_code :: int
  resp_content :: string
  resp_encoding :: string

text \<open>
  The libraries the crawler calls and whose results it cannot compute itself are
  parameters: \<open>yarl.URL(s)\<close> parsing a string, \<open>lxml.html.fromstring\<close> with a parser for
  an encoding (it returns a node of the parsed document), and \<open>httpx.Client.get\<close>. The
  server may answer differently each time, so \<open>client_get\<close> is given the URLs requested
  so far as well.
\<close>

record env =
  yarl_URL :: "string \<Rightarrow> error + url"
  html_fromstring :: "string \<Rightarrow> string \<Rightarrow> error + node"
  client_get :: "string list \<Rightarrow> string \<Rightarrow> error + response"

definition build_queryless_url_str_from_str :: "env \<Rightarrow> string \<Rightarrow> error + string" where
  "build_queryless_url_str_from_str ev input_str =
     (case yarl_URL ev input_str of
        Inl e \<Rightarrow> Inl e
      | Inr as_url \<Rightarrow> Inr (url_str (with_query as_url [])))"

section \<open>The field extractor\<close>

text \<open>The blocks of \<open>parse_raw_item_to_imdb_user_review\<close>, in the order of the source.
  Lines 138 to 143: the review id.\<close>

definition extract_review_id :: "node \<Rightarrow> string option" where
  "extract_review_id raw_item_data =
     (case valid_value_from_dict (attrib (fst raw_item_data)) ''data-review-id'' of
        None \<Rightarrow> None
      | Some review_id_data \<Rightarrow> Some (strip review_id_data))"

text \<open>Lines 145 to 162: the date. The locale is set whenever a date text is found, before
  it is parsed.\<close>

definition review_date_results :: "node \<Rightarrow> string list" where
  "review_date_results raw_item_data = xpath_texts raw_item_data
     (xpath_descendant_contains_target_attribute_builder ''span'' ''class'' ''review-date''
        True True)"

definition extract_review_date ::
  "node \<Rightarrow> process_state \<Rightarrow> (error + string option) \<times> process_state" where
  "extract_review_date raw_item_data st =
     (case review_date_results raw_item_data of
        [] \<Rightarrow> (Inr None, st)
      | r # _ \<Rightarrow>
          (let st' = setlocale_LC_TIME_C st
           in (case strptime_d_B_Y st' (strip r) of
                 Inl e \<Rightarrow> (Inl e, st')
               | Inr as_datetime \<Rightarrow> (Inr (Some (isoformat as_datetime)), st'))))"

text \<open>Lines 164 to 173 and 259 to 270: title and content go through \<open>normalize_text\<close>.\<close>

definition extract_review_title :: "node \<Rightarrow> error + string option" where
  "extract_review_title raw_item_data =
     (case xpath_texts raw_item_data
             (xpath_descendant_contains_target_attribute_builder ''a'' ''class'' ''title''
                True True) of
        [] \<Rightarrow> Inr None
      | r # rs \<Rightarrow> (case normalize_text (map Some (r # rs)) of
                    Inl e \<Rightarrow> Inl e | Inr t \<Rightarrow> Inr (Some t)))"

definition extract_content :: "bool \<Rightarrow> node \<Rightarrow> error + string option" where
  "extract_content review_content_as_single_line raw_item_data =
     (case xpath_texts raw_item_data
             (xpath_descendant_contains_target_attribute_builder ''div'' ''class'' ''text''
                True True) of
        [] \<Rightarrow> Inr None
      | r # rs \<Rightarrow>
          (case normalize_text (map Some (r # rs)) of
             Inl e \<Rightarrow> Inl e
           | Inr c \<Rightarrow>
               Inr (Some (if review_content_as_single_line
                          then join '' '' (split_on (CHR 0x0A) c) else c))))"

text \<open>Lines 175 to 198: the feedback counts, total first.\<close>

definition group_count :: "(string \<times> string) list \<Rightarrow> string \<Rightarrow> error + int" where
  "group_count helpful_variable_dict name =
     (case valid_value_from_dict helpful_variable_dict name of
        None \<Rightarrow> Inl AttributeError
      | Some v \<Rightarrow> py_int (replace_comma v))"

definition extract_feedback :: "node \<Rightarrow> error + (int option \<times> int option)" where
  "extract_feedback raw_item_data =
     (case xpath_texts raw_item_data
             (xpath_descendant_contains_target_attribute_builder ''div'' ''class'' ''actions''
                True True) of
        [] \<Rightarrow> Inr (None, None)
      | r # rs \<Rightarrow>
          (case re_match True FOUND_HELPFUL_REGEX (concat (r # rs)) of
             None \<Rightarrow> Inr (None, None)
           | Some (helpful_variable_dict, rest) \<Rightarrow>
               (case group_count helpful_variable_dict ''total'' of
                  Inl e \<Rightarrow> Inl e
                | Inr total_n \<Rightarrow>
                    (case group_count helpful_variable_dict ''helpful'' of
                       Inl e \<Rightarrow> Inl e
                     | Inr helpful_n \<Rightarrow> Inr (Some total_n, Some helpful_n)))))"

text \<open>Lines 200 to 207: the spoiler flag.\<close>

definition extract_has_spoilers :: "node \<Rightarrow> bool" where
  "extract_has_spoilers raw_item_data =
     (xpath_elements raw_item_data
        (xpath_descendant_contains_target_attribute_builder ''span'' ''class''
           ''spoiler-warning'' True False) \<noteq> [])"

text \<open>Lines 209 to 234: the rating. The user's score is read from the node before the
  first \<open>point-scale\<close> node; \<open>getprevious()\<close> is \<open>None\<close> when there is none, and reading
  \<open>.text\<close> of \<open>None\<close>, or stripping a text that is \<open>None\<close>, raises \<open>AttributeError\<close>. The
  result is the pair (maximum rating, user rating).\<close>

definition rating_results :: "node \<Rightarrow> node list" where
  "rating_results raw_item_data = xpath_elements raw_item_data
     (xpath_descendant_contains_target_attribute_builder ''span'' ''class'' ''point-scale''
        True False)"

definition parse_maximum_rating :: "string option \<Rightarrow> error + int option" where
  "parse_maximum_rating node_text =
     (case node_text of
        None \<Rightarrow> Inl TypeError
      | Some t \<Rightarrow>
          (case re_match False MAXIMUM_RATING_REGEX t of
             None \<Rightarrow> Inr None
           | Some (rating_variable_dict, rest) \<Rightarrow>
               (case valid_value_from_dict rating_variable_dict ''maximum_rating'' of
                  None \<Rightarrow> Inl TypeError
                | Some v \<Rightarrow> (case py_int v of Inl e \<Rightarrow> Inl e | Inr n \<Rightarrow> Inr (Some n)))))"

definition clear_both :: "int \<Rightarrow> int option \<Rightarrow> int option \<times> int option" where
  "clear_both user maximum =
     (if user \<noteq> 0 \<and> maximum \<noteq> None \<and> maximum \<noteq> Some 0 then (maximum, Some user)
      else (None, None))"

definition extract_rating :: "node \<Rightarrow> error + (int option \<times> int option)" where
  "extract_rating raw_item_data =
     (case rating_results raw_item_data of
        [] \<Rightarrow> Inr (None, None)
      | maximum_rating_node # _ \<Rightarrow>
          (case getprevious maximum_rating_node of
             None \<Rightarrow> Inl AttributeError
           | Some user_rating_node \<Rightarrow>
               (case etext (fst user_rating_node) of
                  None \<Rightarrow> Inl AttributeError
                | Some t \<Rightarrow>
                    (case py_int (strip t) of
                       Inl e \<Rightarrow> Inl e
                     | Inr user \<Rightarrow>
                         (case parse_maximum_rating (etext (fst maximum_rating_node)) of
                            Inl e \<Rightarrow> Inl e
                          | Inr maximum \<Rightarrow> Inr (clear_both user maximum))))))"

text \<open>Lines 236 to 257: the author, from the first link with a target in the
  \<open>display-name-date\<close> block.\<close>

definition extract_user :: "env \<Rightarrow> node \<Rightarrow> error + (string option \<times> string option)" where
  "extract_user ev raw_item_data =
     (case xpath_anchors_below raw_item_data
             (xpath_descendant_contains_target_attribute_builder ''div'' ''class''
                ''display-name-date'' True False) of
        [] \<Rightarrow> Inr (None, None)
      | user_data_node # _ \<Rightarrow>
          (case normalize_text [etext (fst user_data_node)] of
             Inl e \<Rightarrow> Inl e
           | Inr name \<Rightarrow>
               (case valid_value_from_dict (attrib (fst user_data_node)) ''href'' of
                  None \<Rightarrow> Inl AttributeError
                | Some href \<Rightarrow>
                    (case build_queryless_url_str_from_str ev (strip href) of
                       Inl e \<Rightarrow> Inl e
                     | Inr u \<Rightarrow> Inr (Some name, Some u)))))"

definition parse_raw_item_to_imdb_user_review ::
  "env \<Rightarrow> string \<Rightarrow> string option \<Rightarrow> string option \<Rightarrow> bool \<Rightarrow> node \<Rightarrow> process_state
   \<Rightarrow> (error + imdb_user_review) \<times> process_state" where
  "parse_raw_item_to_imdb_user_review ev tid tname trel review_content_as_single_line
     raw_item_data st =
     (case extract_review_date raw_item_data st of
        (Inl e, st') \<Rightarrow> (Inl e, st')
      | (Inr date, st') \<Rightarrow>
     (case extract_review_title raw_item_data of
        Inl e \<Rightarrow> (Inl e, st')
      | Inr title \<Rightarrow>
     (case extract_feedback raw_item_data of
        Inl e \<Rightarrow> (Inl e, st')
      | Inr (total_n, helpful_n) \<Rightarrow>
     (case extract_rating raw_item_data of
        Inl e \<Rightarrow> (Inl e, st')
      | Inr (maximum, user) \<Rightarrow>
     (case extract_user ev raw_item_data of
        Inl e \<Rightarrow> (Inl e, st')
      | Inr (name, user_url) \<Rightarrow>
     (case extract_content review_content_as_single_line raw_item_data of
        Inl e \<Rightarrow> (Inl e, st')
      | Inr content_v \<Rightarrow>
          (Inr \<lparr>review_id = extract_review_id raw_item_data,
                review_date = date,
                review_title = title,
                title_id = tid,
                title_name = tname,
                title_relative_url = trel,
                total_feedback = total_n,
                helpful_feedback = helpful_n,
                maximum_rating = maximum,
                user_rating = user,
                has_spoilers = extract_has_spoilers raw_item_data,
                user_name = name,
                user_relative_url = user_url,
                content = content_v\<rparr>, st')))))))"

section \<open>The page parser\<close>

text \<open>A value of type \<open>Optional[str]\<close> is falsy when it is \<open>None\<close> or empty.\<close>

definition falsy :: "string option \<Rightarrow> bool" where
  "falsy v = (v = None \<or> v = Some [])"

text \<open>Lines 305 to 325: the title link is looked for only while neither the name nor the
  path is known. The result is the name, the path and the dictionary \<open>title_data\<close>.\<close>

definition discover_title ::
  "env \<Rightarrow> node \<Rightarrow> string option \<Rightarrow> string option
   \<Rightarrow> error + (string option \<times> string option \<times> (string \<times> string) list)" where
  "discover_title ev root tname trel =
     (if falsy tname \<and> falsy trel then
        (case xpath_elements root
                (xpath_descendant_contains_target_attribute_builder ''a'' ''itemprop'' ''url''
                   False False) of
           [] \<Rightarrow> Inr (tname, trel, [])
         | title_node # _ \<Rightarrow>
             (case normalize_text [etext (fst title_node)] of
                Inl e \<Rightarrow> Inl e
              | Inr name \<Rightarrow>
                  (case valid_value_from_dict (attrib (fst title_node)) ''href'' of
                     None \<Rightarrow> Inl AttributeError
                   | Some href \<Rightarrow>
                       (case build_queryless_url_str_from_str ev (strip href) of
                          Inl e \<Rightarrow> Inl e
                        | Inr u \<Rightarrow>
                            Inr (Some name, Some u,
                                 AList.update ''title_relative_url'' u
                                   (AList.update ''title_name'' name []))))))
      else Inr (tname, trel, []))"

definition review_results :: "node \<Rightarrow> node list" where
  "review_results root = xpath_elements root
     (xpath_descendant_contains_target_attribute_builder ''div'' ''class'' ''imdb-user-review''
        False False)"

text \<open>Lines 335 to 344: the loop over the review containers. A record is always truthy,
  so each one is added to the set; an exception of the extractor leaves the loop.\<close>

fun parse_items ::
  "env \<Rightarrow> string \<Rightarrow> string option \<Rightarrow> string option \<Rightarrow> bool \<Rightarrow> node list
   \<Rightarrow> imdb_user_review set \<Rightarrow> process_state
   \<Rightarrow> (error + imdb_user_review set) \<times> process_state" where
  "parse_items ev tid tname trel sl [] valid_user_review_set st = (Inr valid_user_review_set, st)"
| "parse_items ev tid tname trel sl (raw_review # rest) valid_user_review_set st =
     (case parse_raw_item_to_imdb_user_review ev tid tname trel sl raw_review st of
        (Inl e, st') \<Rightarrow> (Inl e, st')
      | (Inr item, st') \<Rightarrow>
          parse_items ev tid tname trel sl rest (insert item valid_user_review_set) st')"

text \<open>Lines 346 to 361: the continuation data of the first \<open>load-more-data\<close> node below
  the returned node.\<close>

definition load_more_data_results :: "node \<Rightarrow> node list" where
  "load_more_data_results root = xpath_elements root
     (xpath_descendant_contains_target_attribute_builder ''div'' ''class'' ''load-more-data''
        True False)"

definition collect_more_data :: "node \<Rightarrow> (string \<times> string) list" where
  "collect_more_data root =
     (case load_more_data_results root of
        [] \<Rightarrow> []
      | load_more_data_node # _ \<Rightarrow>
          foldl (\<lambda>more_data key.
                   (case valid_value_from_dict (attrib (fst load_more_data_node)) key of
                      None \<Rightarrow> more_data
                    | Some retrieved_value \<Rightarrow> AList.update key retrieved_value more_data))
            [] [''data-key'', ''data-ajaxurl''])"

type_synonym page =
  "imdb_user_review set \<times> (string \<times> string) list \<times> (string \<times> string) list"

definition parse_raw_html_to_imdb_user_review_set_and_more_data ::
  "env \<Rightarrow> string \<Rightarrow> string option \<Rightarrow> string option \<Rightarrow> bool \<Rightarrow> string \<Rightarrow> string
   \<Rightarrow> process_state \<Rightarrow> (error + page) \<times> process_state" where
  "parse_raw_html_to_imdb_user_review_set_and_more_data ev tid tname trel sl raw_html
     original_encoding st =
     (case html_fromstring ev original_encoding raw_html of
        Inl e \<Rightarrow> (Inl e, st)
      | Inr root \<Rightarrow>
          (case discover_title ev root tname trel of
             Inl e \<Rightarrow> (Inl e, st)
           | Inr (tname', trel', title_data) \<Rightarrow>
               (case parse_items ev tid tname' trel' sl (review_results root) {} st of
                  (Inl e, st') \<Rightarrow> (Inl e, st')
                | (Inr valid_user_review_set, st') \<Rightarrow>
                    (Inr (valid_user_review_set, title_data, collect_more_data root), st'))))"

section \<open>The pagination driver\<close>

text \<open>
  The local variables of \<open>crawl_imdb_user_reviews_by_title_id\<close> that live across the loop,
  with the list of URLs requested so far, the pages written to the save directory and the
  state of the process. The wait between two requests only passes time and is left out;
  the save directory is given as it has been created (or \<open>None\<close>).
\<close>

record crawl_state =
  user_review_set :: "imdb_user_review set"
  known_title_name :: "string option"
  known_title_relative_url :: "string option"
  load_more_data_base_url :: "url option"
  current_url :: url
  load_more_data :: bool
  page_count :: nat
  requests :: "string list"
  saved_pages :: "(string \<times> string) list"
  process :: process_state

definition initial_state :: "string \<Rightarrow> process_state \<Rightarrow> crawl_state" where
  "initial_state tid st =
     \<lparr>user_review_set = {}, known_title_name = None, known_title_relative_url = None,
      load_more_data_base_url = None,
      current_url = with_path BASE_IMDB_URL (RELATIVE_IMDB_USER_REVIEWS_URL tid),
      load_more_data = True, page_count = 0, requests = [], saved_pages = [],
      process = st\<rparr>"

text \<open>Lines 425 to 431: saving the page.\<close>

definition save_page :: "string option \<Rightarrow> string \<Rightarrow> crawl_state \<Rightarrow> crawl_state" where
  "save_page current_save_dir_path raw_html s =
     (case current_save_dir_path of
        None \<Rightarrow> s
      | Some dir \<Rightarrow>
          s\<lparr>saved_pages := saved_pages s
               @ [(dir @ ''/'' @ zero_pad 7 (page_count s) @ ''.html'', raw_html)],
            page_count := Suc (page_count s)\<rparr>)"

text \<open>Lines 446 to 459: merging the records and the title data of the page.\<close>

definition merge_page ::
  "imdb_user_review set \<Rightarrow> (string \<times> string) list \<Rightarrow> crawl_state \<Rightarrow> crawl_state" where
  "merge_page current_user_review_set new_title_data s =
     s\<lparr>user_review_set := user_review_set s \<union> current_user_review_set,
       known_title_name :=
         (if falsy (known_title_name s)
             \<and> valid_value_from_dict new_title_data ''title_name'' \<noteq> None
          then valid_value_from_dict new_title_data ''title_name''
          else known_title_name s),
       known_title_relative_url :=
         (if falsy (known_title_relative_url s)
             \<and> valid_value_from_dict new_title_data ''title_relative_url'' \<noteq> None
          then valid_value_from_dict new_title_data ''title_relative_url''
          else known_title_relative_url s)\<rparr>"

text \<open>Lines 461 to 485: whether to go on, and with which URL.\<close>

definition decide_continuation :: "(string \<times> string) list \<Rightarrow> crawl_state \<Rightarrow> crawl_state" where
  "decide_continuation more_data s =
     (if more_data = [] then s\<lparr>load_more_data := False\<rparr>
      else
        (case valid_value_from_dict more_data ''data-key'' of
           None \<Rightarrow> s\<lparr>load_more_data := False\<rparr>
         | Some data_key \<Rightarrow>
             (case (case load_more_data_base_url s of
                      Some b \<Rightarrow> Some b
                    | None \<Rightarrow>
                        (case valid_value_from_dict more_data ''data-ajaxurl'' of
                           None \<Rightarrow> None
                         | Some new_data_ajaxurl \<Rightarrow>
                             Some (with_path BASE_IMDB_URL new_data_ajaxurl))) of
                None \<Rightarrow> s\<lparr>load_more_data := False\<rparr>
              | Some b \<Rightarrow>
                  s\<lparr>load_more_data_base_url := Some b,
                    current_url := with_query b
                      [(''ref_'', ''undefined''), (''paginationKey'', data_key)]\<rparr>)))"

text \<open>One turn of the loop \<open>while load_more_data\<close>, lines 408 to 485.\<close>

definition crawl_body ::
  "env \<Rightarrow> string \<Rightarrow> bool \<Rightarrow> string option \<Rightarrow> crawl_state \<Rightarrow> error + crawl_state" where
  "crawl_body ev tid sl current_save_dir_path s =
     (case client_get ev (requests s) (url_str (current_url s)) of
        Inl e \<Rightarrow> Inl e
      | Inr resp \<Rightarrow>
          (let s1 = s\<lparr>requests := requests s @ [url_str (current_url s)]\<rparr>
           in if 400 \<le> status_code resp \<and> status_code resp < 600
              then Inr (s1\<lparr>load_more_data := False\<rparr>)
              else
                (let s2 = save_page current_save_dir_path (resp_content resp) s1
                 in (case parse_raw_html_to_imdb_user_review_set_and_more_data ev tid
                           (known_title_name s2) (known_title_relative_url s2) sl
                           (resp_content resp) (resp_encoding resp) (process s2) of
                       (Inl e, st') \<Rightarrow> Inl e
                     | (Inr (current_user_review_set, new_title_data, more_data), st') \<Rightarrow>
                         Inr (decide_continuation more_data
                                (merge_page current_user_review_set new_title_data
                                   (s2\<lparr>process := st'\<rparr>)))))))"

partial_function (option) crawl_while ::
  "env \<Rightarrow> string \<Rightarrow> bool \<Rightarrow> string option \<Rightarrow> crawl_state \<Rightarrow> (error + crawl_state) option" where
  "crawl_while ev tid sl current_save_dir_path s =
     (if load_more_data s then
        (case crawl_body ev tid sl current_save_dir_path s of
           Inl e \<Rightarrow> Some (Inl e)
         | Inr s' \<Rightarrow> crawl_while ev tid sl current_save_dir_path s')
      else Some (Inr s))"

declare crawl_while.simps [code]


section \<open>Notions used in the statements\<close>

text \<open>The first exception in a list of results, if any.\<close>

fun first_error :: "(error + 'a) list \<Rightarrow> error option" where
  "first_error [] = None"
| "first_error (Inl e # xs) = Some e"
| "first_error (Inr v # xs) = first_error xs"

text \<open>The state of the loop after the request, the saving and the merging of a page, just
  before the decision on the continuation.\<close>

definition merged ::
  "string option \<Rightarrow> response \<Rightarrow> imdb_user_review set \<Rightarrow> (string \<times> string) list
   \<Rightarrow> process_state \<Rightarrow> crawl_state \<Rightarrow> crawl_state" where
  "merged sd resp recs td st' s = merge_page recs td
     ((save_page sd (resp_content resp) (s\<lparr>requests := requests s @ [url_str (current_url s)]\<rparr>))
        \<lparr>process := st'\<rparr>)"

section \<open>Documents and servers used as concrete inputs\<close>

definition C_locale :: process_state where
  "C_locale = \<lparr>lc_time = ''C'', month_name = C_month_name\<rparr>"

definition st_pt :: process_state where
  "st_pt = \<lparr>lc_time = ''pt_BR.UTF-8'',
     month_name = [''janeiro'', ''fevereiro'', ''marco'', ''abril'', ''maio'', ''junho'',
       ''julho'', ''agosto'', ''setembro'', ''outubro'', ''novembro'', ''dezembro'']\<rparr>"

text \<open>A review block with id, date, the rating pair and the feedback phrase.\<close>

definition review_c1 :: element where
  "review_c1 = Element (Some ''div'')
     [(''class'', ''lister-item imdb-user-review''), (''data-review-id'', ''rv001'')] None None
     [Element (Some ''span'') [(''class'', ''rating-other-user-rating'')] None None
        [Element (Some ''span'') [] (Some ''8'') None [],
         Element (Some ''span'') [(''class'', ''point-scale'')] (Some ''/10'') None []],
      Element (Some ''span'') [(''class'', ''review-date'')] (Some ''12 March 2020'') None [],
      Element (Some ''div'') [(''class'', ''actions text-muted'')]
        (Some ''7 out of 9 found this helpful'') None []]"

definition body_c1 :: element where
  "body_c1 = Element (Some ''body'') [] None None [review_c1]"

definition doc_c1 :: element where
  "doc_c1 = Element (Some ''html'') [] None None [body_c1]"

definition node_c1 :: node where
  "node_c1 = (review_c1, [Frame [] body_c1 [], Frame [] doc_c1 []])"

definition rec_c1 :: "string \<Rightarrow> string option \<Rightarrow> string option \<Rightarrow> imdb_user_review" where
  "rec_c1 tid tname trel =
     \<lparr>review_id = Some ''rv001'', review_date = Some ''2020-03-12'', review_title = None,
      title_id = tid, title_name = tname, title_relative_url = trel,
      total_feedback = Some 9, helpful_feedback = Some 7, maximum_rating = Some 10,
      user_rating = Some 8, has_spoilers = False, user_name = None,
      user_relative_url = None, content = None\<rparr>"

definition ev_c1 :: env where
  "ev_c1 = \<lparr>yarl_URL = (\<lambda>s. Inl ValueError),
     html_fromstring = (\<lambda>enc raw. Inr (doc_c1, [])),
     client_get = (\<lambda>h u. Inl TransportError)\<rparr>"

text \<open>The same block with a maximum that carries no \<open>/N\<close>.\<close>

definition review_c2 :: element where
  "review_c2 = Element (Some ''div'') [(''class'', ''imdb-user-review'')] None None
     [Element (Some ''span'') [(''class'', ''rating-other-user-rating'')] None None
        [Element (Some ''span'') [] (Some ''8'') None [],
         Element (Some ''span'') [(''class'', ''point-scale'')] (Some ''out of ten'') None []]]"

definition rec_c2 :: imdb_user_review where
  "rec_c2 =
     \<lparr>review_id = None, review_date = None, review_title = None, title_id = ''tt1'',
      title_name = None, title_relative_url = None, total_feedback = None,
      helpful_feedback = None, maximum_rating = None, user_rating = None,
      has_spoilers = False, user_name = None, user_relative_url = None, content = None\<rparr>"

text \<open>A block whose rating area holds the maximum alone, with no node before it.\<close>

definition review_c3 :: element where
  "review_c3 = Element (Some ''div'') [(''class'', ''imdb-user-review'')] None None
     [Element (Some ''span'') [(''class'', ''rating-other-user-rating'')] None None
        [Element (Some ''span'') [(''class'', ''point-scale'')] (Some ''/10'') None []]]"

text \<open>A block whose date text is not a date, and a page that holds it before a block
  that the extractor accepts.\<close>

definition review_c4 :: element where
  "review_c4 = Element (Some ''div'') [(''class'', ''imdb-user-review'')] None None
     [Element (Some ''span'') [(''class'', ''review-date'')] (Some ''yesterday'') None []]"

definition body_c5 :: element where
  "body_c5 = Element (Some ''body'') [] None None [review_c4, review_c2]"

definition doc_c5 :: element where
  "doc_c5 = Element (Some ''html'') [] None None [body_c5]"

definition node_c5 :: node where
  "node_c5 = (review_c2, [Frame [review_c4] body_c5 [], Frame [] doc_c5 []])"

definition ev_c5 :: env where
  "ev_c5 = \<lparr>yarl_URL = (\<lambda>s. Inl ValueError),
     html_fromstring = (\<lambda>enc raw. Inr (doc_c5, [])),
     client_get = (\<lambda>h u. Inl TransportError)\<rparr>"

text \<open>A first page with one review and a continuation, a second page whose
  \<open>load-more-data\<close> node has a key and no path, and servers that answer 404 beyond.\<close>

definition load_more_p1 :: element where
  "load_more_p1 = Element (Some ''div'')
     [(''class'', ''load-more-data''), (''data-key'', ''abc123''),
      (''data-ajaxurl'', ''/title/tt1/_ajax'')] None None []"

definition doc_p1 :: element where
  "doc_p1 = Element (Some ''html'') [] None None
     [Element (Some ''body'') [] None None [review_c2, load_more_p1]]"

definition load_more_p2 :: element where
  "load_more_p2 = Element (Some ''div'')
     [(''class'', ''load-more-data''), (''data-key'', ''k2'')] None None []"

definition doc_p2 :: element where
  "doc_p2 = Element (Some ''html'') [] None None
     [Element (Some ''body'') [] None None [load_more_p2]]"

definition url_p1 :: string where
  "url_p1 = ''https://www.imdb.com/title/tt1/reviews''"

definition url_p2 :: string where
  "url_p2 = ''https://www.imdb.com/title/tt1/_ajax?ref_=undefined&paginationKey=abc123''"

definition url_p3 :: string where
  "url_p3 = ''https://www.imdb.com/title/tt1/_ajax?ref_=undefined&paginationKey=k2''"

definition ok_response :: "string \<Rightarrow> response" where
  "ok_response body = \<lparr>status_code = 200, resp_content = body, resp_encoding = ''utf-8''\<rparr>"

definition not_found :: response where
  "not_found = \<lparr>status_code = 404, resp_content = [], resp_encoding = ''utf-8''\<rparr>"

definition fromstring_pages :: "string \<Rightarrow> string \<Rightarrow> error + node" where
  "fromstring_pages enc raw =
     (if raw = ''page1'' then Inr (doc_p1, [])
      else if raw = ''page2'' then Inr (doc_p2, [])
      else Inl ParserError)"

definition ev_c6 :: env where
  "ev_c6 = \<lparr>yarl_URL = (\<lambda>s. Inl ValueError), html_fromstring = fromstring_pages,
     client_get = (\<lambda>h u. if u = url_p1 then Inr (ok_response ''page1'') else Inr not_found)\<rparr>"

definition ev_c8 :: env where
  "ev_c8 = \<lparr>yarl_URL = (\<lambda>s. Inl ValueError), html_fromstring = fromstring_pages,
     client_get = (\<lambda>h u. if u = url_p1 then Inr (ok_response ''page1'')
                          else if u = url_p2 then Inr (ok_response ''page2'')
                          else Inr not_found)\<rparr>"

text \<open>A block and a \<open>load-more-data\<close> node with empty attribute values.\<close>

definition review_c10 :: element where
  "review_c10 = Element (Some ''div'')
     [(''class'', ''imdb-user-review''), (''data-review-id'', [])] None None []"

definition load_more_c10 :: element where
  "load_more_c10 = Element (Some ''div'')
     [(''class'', ''load-more-data''), (''data-key'', []),
      (''data-ajaxurl'', ''/title/tt1/_ajax'')] None None []"

definition doc_c10 :: element where
  "doc_c10 = Element (Some ''html'') [] None None
     [Element (Some ''body'') [] None None [load_more_c10]]"

definition ev_c10 :: env where
  "ev_c10 = \<lparr>yarl_URL = (\<lambda>s. Inl ValueError),
     html_fromstring = (\<lambda>enc raw. Inr (doc_c10, [])),
     client_get = (\<lambda>h u. Inr (ok_response ''page''))\<rparr>"

text \<open>A page of which lxml returns the \<open>load-more-data\<close> node itself, as it does for a
  fragment with a single element.\<close>

definition body_single :: element where
  "body_single = Element (Some ''body'') [] None None [load_more_p1]"

definition doc_single :: element where
  "doc_single = Element (Some ''html'') [] None None [body_single]"

definition node_single :: node where
  "node_single = (load_more_p1, [Frame [] body_single [], Frame [] doc_single []])"

definition ev_single :: env where
  "ev_single = \<lparr>yarl_URL = (\<lambda>s. Inl ValueError),
     html_fromstring = (\<lambda>enc raw. Inr node_single),
     client_get = (\<lambda>h u. Inr (ok_response ''page''))\<rparr>"

section \<open>Facts about the field extractor\<close>

lemma f_month_setlocale: "f_month (setlocale_LC_TIME_C st) = f_month C_locale"
  by (simp add: f_month_def setlocale_LC_TIME_C_def C_locale_def)

lemma group_month_setlocale: "group_month (setlocale_LC_TIME_C st) = group_month C_locale"
  unfolding group_month_def f_month_setlocale ..

lemma format_regex_setlocale: "format_regex (setlocale_LC_TIME_C st) = format_regex C_locale"
  unfolding format_regex_def f_month_setlocale ..

lemma strptime_setlocale:
  "strptime_d_B_Y (setlocale_LC_TIME_C st) s = strptime_d_B_Y C_locale s"
  unfolding strptime_d_B_Y_def group_month_setlocale format_regex_setlocale ..

lemma py_int_error: "py_int s = Inl e \<Longrightarrow> e = ValueError"
  by (auto simp: py_int_def parse_unsigned_def
      split: list.splits if_splits sum.splits option.splits)

lemma strptime_error: "strptime_d_B_Y st s = Inl e \<Longrightarrow> e = ValueError"
  by (auto simp: strptime_d_B_Y_def group_int_def group_month_def
      split: option.splits prod.splits if_splits sum.splits dest: py_int_error)

lemma extract_review_date_fst:
  "fst (extract_review_date n st) = fst (extract_review_date n st')"
  by (simp add: extract_review_date_def Let_def strptime_setlocale
      split: list.splits sum.splits)

lemma extract_review_date_snd:
  "snd (extract_review_date n st) =
     (if review_date_results n = [] then st else setlocale_LC_TIME_C st)"
  by (simp add: extract_review_date_def Let_def split: list.splits sum.splits)

text \<open>The result of the extractor, without the state it threads.\<close>

lemma item_fst:
  "fst (parse_raw_item_to_imdb_user_review ev tid tn tr sl n st) =
   fst (parse_raw_item_to_imdb_user_review ev tid tn tr sl n st')"
  using extract_review_date_fst [of n st st']
  by (cases "extract_review_date n st"; cases "extract_review_date n st'")
     (auto simp: parse_raw_item_to_imdb_user_review_def split: sum.splits prod.splits)

lemma item_snd:
  "snd (parse_raw_item_to_imdb_user_review ev tid tn tr sl n st) =
     (if review_date_results n = [] then st else setlocale_LC_TIME_C st)"
  using extract_review_date_snd [of n st]
  by (cases "extract_review_date n st")
     (auto simp: parse_raw_item_to_imdb_user_review_def split: sum.splits prod.splits)

lemma extract_rating_cleared:
  assumes "extract_rating n = Inr (m, u)"
  shows "(u = None) = (m = None) \<and> u \<noteq> Some 0 \<and> m \<noteq> Some 0
    \<and> (\<forall>x xs t. rating_results n = x # xs \<and> etext (fst x) = Some t
          \<and> re_match False MAXIMUM_RATING_REGEX t = None \<longrightarrow> u = None \<and> m = None)"
  using assms
  by (auto simp: extract_rating_def clear_both_def parse_maximum_rating_def
      split: list.splits option.splits sum.splits if_splits)

lemma item_rating:
  "fst (parse_raw_item_to_imdb_user_review ev tid tn tr sl n st) = Inr r \<Longrightarrow>
   extract_rating n = Inr (maximum_rating r, user_rating r)"
  by (cases "extract_review_date n st")
     (auto simp: parse_raw_item_to_imdb_user_review_def split: sum.splits prod.splits)

lemma item_review_id:
  "fst (parse_raw_item_to_imdb_user_review ev tid tn tr sl n st) = Inr r \<Longrightarrow>
   review_id r = extract_review_id n"
  by (cases "extract_review_date n st")
     (auto simp: parse_raw_item_to_imdb_user_review_def split: sum.splits prod.splits)

lemma item_review_date:
  "fst (parse_raw_item_to_imdb_user_review ev tid tn tr sl n st) = Inr r \<Longrightarrow>
   fst (extract_review_date n st) = Inr (review_date r)"
  by (cases "extract_review_date n st")
     (auto simp: parse_raw_item_to_imdb_user_review_def split: sum.splits prod.splits)

lemma extract_review_date_value:
  "fst (extract_review_date n st) =
     (case review_date_results n of
        [] \<Rightarrow> Inr None
      | r # rs \<Rightarrow> (case strptime_d_B_Y C_locale (strip r) of
                    Inl e \<Rightarrow> Inl e | Inr ymd \<Rightarrow> Inr (Some (isoformat ymd))))"
  by (simp add: extract_review_date_def Let_def strptime_setlocale split: list.splits sum.splits)

lemma item_date_error:
  "review_date_results n = r # rs \<Longrightarrow> strptime_d_B_Y C_locale (strip r) = Inl e \<Longrightarrow>
   fst (parse_raw_item_to_imdb_user_review ev tid tn tr sl n st) = Inl ValueError"
  by (auto simp: parse_raw_item_to_imdb_user_review_def extract_review_date_def Let_def
      strptime_setlocale dest: strptime_error)

text \<open>The blocks of the well-formed review, evaluated.\<close>

lemma c1_reviews: "review_results (doc_c1, []) = [node_c1]"
  by code_simp

lemma c1_date_results: "review_date_results node_c1 = [''12 March 2020'']"
  by code_simp

lemma c1_date:
  "map_sum id isoformat (strptime_d_B_Y C_locale (strip ''12 March 2020''))
     = Inr ''2020-03-12''"
  by code_simp

lemma c1_title: "extract_review_title node_c1 = Inr None"
  by code_simp

lemma c1_feedback: "extract_feedback node_c1 = Inr (Some 9, Some 7)"
  by code_simp

lemma c1_rating: "extract_rating node_c1 = Inr (Some 10, Some 8)"
  by code_simp

lemma c1_user:
  "xpath_anchors_below node_c1
     (xpath_descendant_contains_target_attribute_builder ''div'' ''class''
        ''display-name-date'' True False) = []"
  by code_simp

lemma c1_content:
  "xpath_texts node_c1
     (xpath_descendant_contains_target_attribute_builder ''div'' ''class'' ''text''
        True True) = []"
  by code_simp

lemma c1_id: "extract_review_id node_c1 = Some ''rv001''"
  by code_simp

lemma c1_spoilers: "extract_has_spoilers node_c1 = False"
  by code_simp

lemma c1_title_link:
  "xpath_elements (doc_c1, [])
     (xpath_descendant_contains_target_attribute_builder ''a'' ''itemprop'' ''url''
        False False) = []"
  by code_simp

lemma c1_more: "collect_more_data (doc_c1, []) = []"
  by code_simp

lemma c1_item:
  "fst (parse_raw_item_to_imdb_user_review ev tid tn tr sl node_c1 st) = Inr (rec_c1 tid tn tr)"
proof -
  have d: "extract_review_date node_c1 st = (Inr (Some ''2020-03-12''), setlocale_LC_TIME_C st)"
    using c1_date
    by (auto simp add: extract_review_date_def c1_date_results strptime_setlocale Let_def
        split: sum.splits)
  show ?thesis
    by (simp add: parse_raw_item_to_imdb_user_review_def d c1_title c1_feedback c1_rating
        extract_user_def c1_user extract_content_def c1_content c1_id c1_spoilers rec_c1_def)
qed

text \<open>The blocks of the review whose rating area holds the maximum alone.\<close>

lemma c3_date_results: "review_date_results (review_c3, []) = []"
  by code_simp

lemma c3_title: "extract_review_title (review_c3, []) = Inr None"
  by code_simp

lemma c3_feedback: "extract_feedback (review_c3, []) = Inr (None, None)"
  by code_simp

lemma c3_rating: "extract_rating (review_c3, []) = Inl AttributeError"
  by code_simp

section \<open>The claims about the field extractor\<close>

text \<open>
  C1. A page whose document holds exactly one review block, with the attribute
  \<open>data-review-id="rv001"\<close>, the date text \<open>12 March 2020\<close>, the rating nodes \<open>8\<close> and \<open>/10\<close>
  and the phrase \<open>7 out of 9 found this helpful\<close>, is parsed into exactly one record, with
  review id \<open>rv001\<close>, review date \<open>2020-03-12\<close>, user rating 8, maximum rating 10, helpful
  feedback 7 and total feedback 9. The document is \<open>doc_c1\<close>, whatever bytes and encoding
  lxml read it from.
\<close>

theorem C1_single_review_page:
  assumes "html_fromstring ev enc raw = Inr (doc_c1, [])"
  shows "\<exists>r. fst (parse_raw_html_to_imdb_user_review_set_and_more_data ev tid None None sl
                    raw enc st) = Inr ({r}, [], [])
           \<and> review_id r = Some ''rv001'' \<and> review_date r = Some ''2020-03-12''
           \<and> user_rating r = Some 8 \<and> maximum_rating r = Some 10
           \<and> helpful_feedback r = Some 7 \<and> total_feedback r = Some 9"
proof -
  have t: "discover_title ev (doc_c1, []) None None = Inr (None, None, [])"
    by (simp add: discover_title_def falsy_def c1_title_link)
  obtain st' where i:
    "parse_raw_item_to_imdb_user_review ev tid None None sl node_c1 st
       = (Inr (rec_c1 tid None None), st')"
    using c1_item [of ev tid None None sl st]
    by (cases "parse_raw_item_to_imdb_user_review ev tid None None sl node_c1 st") auto
  have "fst (parse_raw_html_to_imdb_user_review_set_and_more_data ev tid None None sl raw enc st)
          = Inr ({rec_c1 tid None None}, [], [])"
    by (simp add: parse_raw_html_to_imdb_user_review_set_and_more_data_def assms t c1_reviews
        i c1_more)
  then show ?thesis
    by (auto simp: rec_c1_def)
qed

theorem C1_single_review_page_witness:
  "\<exists>r. fst (parse_raw_html_to_imdb_user_review_set_and_more_data ev_c1 ''tt1'' None None False
               ''<html>'' ''utf-8'' st_pt) = Inr ({r}, [], [])
      \<and> review_id r = Some ''rv001'' \<and> review_date r = Some ''2020-03-12''
      \<and> user_rating r = Some 8 \<and> maximum_rating r = Some 10
      \<and> helpful_feedback r = Some 7 \<and> total_feedback r = Some 9"
  using C1_single_review_page [of ev_c1 "''utf-8''" "''<html>''" "''tt1''" False st_pt]
  by (simp add: ev_c1_def)

text \<open>
  C2. In every record the field extractor produces, the user rating is null exactly when
  the maximum rating is null. Neither is ever reported as 0, and when the text of the
  \<open>point-scale\<close> node has no \<open>/N\<close> both are null.
\<close>

theorem C2_rating_pair:
  assumes "fst (parse_raw_item_to_imdb_user_review ev tid tn tr sl n st) = Inr r"
  shows "(user_rating r = None) = (maximum_rating r = None)
    \<and> user_rating r \<noteq> Some 0 \<and> maximum_rating r \<noteq> Some 0
    \<and> (\<forall>x xs t. rating_results n = x # xs \<and> etext (fst x) = Some t
          \<and> re_match False MAXIMUM_RATING_REGEX t = None \<longrightarrow>
        user_rating r = None \<and> maximum_rating r = None)"
  using item_rating [OF assms] by (rule extract_rating_cleared)

lemma c2_item:
  "fst (parse_raw_item_to_imdb_user_review ev_c1 ''tt1'' None None False (review_c2, []) st_pt)
     = Inr rec_c2"
  by code_simp

lemma c2_rating_node:
  "map (\<lambda>x. etext (fst x)) (rating_results (review_c2, [])) = [Some ''out of ten'']"
  by code_simp

lemma c2_no_match: "re_match False MAXIMUM_RATING_REGEX ''out of ten'' = None"
  by code_simp

theorem C2_rating_pair_witness:
  "\<exists>r. fst (parse_raw_item_to_imdb_user_review ev_c1 ''tt1'' None None False (review_c2, [])
               st_pt) = Inr r
      \<and> (user_rating r = None) = (maximum_rating r = None)
      \<and> user_rating r = None \<and> maximum_rating r = None"
proof -
  obtain x where x: "rating_results (review_c2, []) = x # []"
    and t: "etext (fst x) = Some ''out of ten''"
    using c2_rating_node by (cases "rating_results (review_c2, [])") auto
  have "(user_rating rec_c2 = None) = (maximum_rating rec_c2 = None)
      \<and> user_rating rec_c2 = None \<and> maximum_rating rec_c2 = None"
    using C2_rating_pair [OF c2_item] x t c2_no_match by blast
  then show ?thesis
    using c2_item by blast
qed

text \<open>
  C3. A review block whose rating area holds only the node \<open>/10\<close>, with no node before it,
  should give a record with both ratings null. The extractor reads the text of the node
  before the \<open>point-scale\<close> node before it looks whether a value is missing; there is no
  such node, and the read raises \<open>AttributeError\<close>: no record is produced.
\<close>

theorem C3_missing_user_score_raises:
  "fst (parse_raw_item_to_imdb_user_review ev tid tn tr sl (review_c3, []) st)
     = Inl AttributeError"
  by (simp add: parse_raw_item_to_imdb_user_review_def extract_review_date_def
      c3_date_results c3_title c3_feedback c3_rating)

text \<open>
  C4 (as amended). When the review block has a date text that does not parse as day,
  month name and year, the field extractor raises \<open>ValueError\<close> and no record is produced.
  In a record that is produced the date is null exactly when the block has no date
  text; with a date text it is the ISO form of the parsed date. The date is parsed with
  the month names of the C locale, which the extractor has just set.
\<close>

theorem C4_unparsable_date_raises:
  "(\<forall>r rs e. review_date_results n = r # rs \<and> strptime_d_B_Y C_locale (strip r) = Inl e \<longrightarrow>
      fst (parse_raw_item_to_imdb_user_review ev tid tn tr sl n st) = Inl ValueError)
   \<and> (\<forall>rec. fst (parse_raw_item_to_imdb_user_review ev tid tn tr sl n st) = Inr rec \<longrightarrow>
        (review_date rec = None) = (review_date_results n = [])
        \<and> (\<forall>r rs. review_date_results n = r # rs \<longrightarrow>
              (\<exists>ymd. strptime_d_B_Y C_locale (strip r) = Inr ymd
                 \<and> review_date rec = Some (isoformat ymd))))"
proof (intro conjI allI impI)
  fix r rs e
  assume "review_date_results n = r # rs \<and> strptime_d_B_Y C_locale (strip r) = Inl e"
  then show "fst (parse_raw_item_to_imdb_user_review ev tid tn tr sl n st) = Inl ValueError"
    using item_date_error [of n r rs e ev tid tn tr sl st] by simp
next
  fix rec
  assume "fst (parse_raw_item_to_imdb_user_review ev tid tn tr sl n st) = Inr rec"
  then have "fst (extract_review_date n st) = Inr (review_date rec)"
    by (rule item_review_date)
  then show "(review_date rec = None) = (review_date_results n = [])"
    unfolding extract_review_date_value
    by (cases "review_date rec") (auto split: list.splits sum.splits)
next
  fix rec r rs
  assume "fst (parse_raw_item_to_imdb_user_review ev tid tn tr sl n st) = Inr rec"
    and rs: "review_date_results n = r # rs"
  then have "fst (extract_review_date n st) = Inr (review_date rec)"
    by (intro item_review_date)
  then show "\<exists>ymd. strptime_d_B_Y C_locale (strip r) = Inr ymd
                 \<and> review_date rec = Some (isoformat ymd)"
    unfolding extract_review_date_value using rs
    by (auto split: list.splits sum.splits)
qed

lemma c4_date_results: "review_date_results (review_c4, []) = [''yesterday'']"
  by code_simp

lemma c4_strptime: "strptime_d_B_Y C_locale (strip ''yesterday'') = Inl ValueError"
  by code_simp

lemma c2_date_results: "review_date_results (review_c2, []) = []"
  by code_simp

theorem C4_unparsable_date_raises_witness:
  "review_date_results (review_c4, []) = [''yesterday'']
   \<and> strptime_d_B_Y C_locale (strip ''yesterday'') = Inl ValueError
   \<and> fst (parse_raw_item_to_imdb_user_review ev_c1 ''tt1'' None None False (review_c4, []) st_pt)
       = Inl ValueError
   \<and> review_date_results node_c1 = [''12 March 2020'']
   \<and> (\<exists>rec. fst (parse_raw_item_to_imdb_user_review ev_c1 ''tt1'' None None False node_c1
                  st_pt) = Inr rec \<and> review_date rec = Some ''2020-03-12'')
   \<and> review_date_results (review_c2, []) = []
   \<and> (\<exists>rec. fst (parse_raw_item_to_imdb_user_review ev_c1 ''tt1'' None None False
                  (review_c2, []) st_pt) = Inr rec \<and> review_date rec = None)"
proof -
  have a: "fst (parse_raw_item_to_imdb_user_review ev_c1 ''tt1'' None None False (review_c4, [])
      st_pt) = Inl ValueError"
    using C4_unparsable_date_raises [of "(review_c4, [])" ev_c1 "''tt1''" None None False st_pt]
      c4_date_results c4_strptime by blast
  have i1: "fst (parse_raw_item_to_imdb_user_review ev_c1 ''tt1'' None None False node_c1 st_pt)
      = Inr (rec_c1 ''tt1'' None None)"
    by (rule c1_item)
  have "\<exists>ymd. strptime_d_B_Y C_locale (strip ''12 March 2020'') = Inr ymd
      \<and> review_date (rec_c1 ''tt1'' None None) = Some (isoformat ymd)"
    using C4_unparsable_date_raises [of node_c1 ev_c1 "''tt1''" None None False st_pt] i1 c1_date_results by blast
  then have b: "review_date (rec_c1 ''tt1'' None None) = Some ''2020-03-12''"
    using c1_date by auto
  have c: "review_date rec_c2 = None"
    using C4_unparsable_date_raises [of "(review_c2, [])" ev_c1 "''tt1''" None None False st_pt] c2_item
      c2_date_results by blast
  show ?thesis
    using a b c i1 c2_item c4_date_results c4_strptime c1_date_results c2_date_results
    by blast
qed

theorem C4_counterexample:
  "review_date_results (review_c4, []) = [''yesterday'']
   \<and> \<not> (\<exists>r. fst (parse_raw_item_to_imdb_user_review ev_c1 ''tt1'' None None False
                    (review_c4, []) st_pt) = Inr r \<and> review_date r = None)
   \<and> fst (parse_raw_item_to_imdb_user_review ev_c1 ''tt1'' None None False (review_c4, []) st_pt)
       = Inl ValueError"
proof -
  have "fst (parse_raw_item_to_imdb_user_review ev_c1 ''tt1'' None None False (review_c4, [])
          st_pt) = Inl ValueError"
    by code_simp
  then show ?thesis
    by (simp add: c4_date_results)
qed

text \<open>
  C9 (as amended). The record the field extractor returns, or the exception it raises,
  depends on its arguments alone: it is the same whatever the state of the process. The
  extractor does write state of the process: when the block has a date text it sets the
  \<open>LC_TIME\<close> locale to \<open>C\<close> and leaves it so; with no date text it leaves the state as it
  was.
\<close>

theorem C9_result_pure_locale_written:
  "fst (parse_raw_item_to_imdb_user_review ev tid tn tr sl n st)
     = fst (parse_raw_item_to_imdb_user_review ev tid tn tr sl n st')
   \<and> snd (parse_raw_item_to_imdb_user_review ev tid tn tr sl n st)
     = (if review_date_results n = [] then st
        else st\<lparr>lc_time := ''C'', month_name := C_month_name\<rparr>)"
  using item_fst [of ev tid tn tr sl n st st'] item_snd [of ev tid tn tr sl n st]
  by (simp add: setlocale_LC_TIME_C_def)

theorem C9_result_pure_locale_written_witness:
  "fst (parse_raw_item_to_imdb_user_review ev_c1 ''tt1'' None None False node_c1 st_pt)
     = fst (parse_raw_item_to_imdb_user_review ev_c1 ''tt1'' None None False node_c1 C_locale)
   \<and> snd (parse_raw_item_to_imdb_user_review ev_c1 ''tt1'' None None False node_c1 st_pt)
     = C_locale"
  using C9_result_pure_locale_written [of ev_c1 "''tt1''" None None False node_c1 st_pt C_locale]
  by (simp add: c1_date_results st_pt_def C_locale_def)

theorem C9_counterexample:
  "lc_time st_pt = ''pt_BR.UTF-8''
   \<and> lc_time (snd (parse_raw_item_to_imdb_user_review ev_c1 ''tt1'' None None False node_c1
        st_pt)) = ''C''
   \<and> snd (parse_raw_item_to_imdb_user_review ev_c1 ''tt1'' None None False node_c1 st_pt)
       \<noteq> st_pt"
  by (simp add: item_snd c1_date_results setlocale_LC_TIME_C_def st_pt_def)

section \<open>Facts about the page parser\<close>

lemma parse_items_fst:
  "fst (parse_items ev tid tn tr sl ns acc st) =
     (case first_error (map (\<lambda>n. fst (parse_raw_item_to_imdb_user_review ev tid tn tr sl n st0)) ns) of
        Some e \<Rightarrow> Inl e
      | None \<Rightarrow> Inr (acc \<union> {r. Inr r \<in> set (map (\<lambda>n. fst (parse_raw_item_to_imdb_user_review ev tid tn tr sl n st0)) ns)}))"
proof (induction ns arbitrary: acc st)
  case Nil
  then show ?case by simp
next
  case (Cons a ns)
  obtain res st' where p: "parse_raw_item_to_imdb_user_review ev tid tn tr sl a st = (res, st')"
    by (cases "parse_raw_item_to_imdb_user_review ev tid tn tr sl a st")
  have q: "fst (parse_raw_item_to_imdb_user_review ev tid tn tr sl a st0) = res"
    using item_fst [of ev tid tn tr sl a st0 st] p by simp
  show ?case
  proof (cases res)
    case (Inl e)
    then show ?thesis using p q by simp
  next
    case (Inr item)
    then show ?thesis using p q Cons.IH [of "insert item acc" st']
      by (auto split: option.splits)
  qed
qed

lemma page_result:
  "fst (parse_raw_html_to_imdb_user_review_set_and_more_data ev tid tn tr sl raw enc st) =
     (case html_fromstring ev enc raw of
        Inl e \<Rightarrow> Inl e
      | Inr root \<Rightarrow>
          (case discover_title ev root tn tr of
             Inl e \<Rightarrow> Inl e
           | Inr (tn', tr', td) \<Rightarrow>
               (case first_error (map (\<lambda>n. fst (parse_raw_item_to_imdb_user_review ev tid tn' tr'
                                                    sl n st)) (review_results root)) of
                  Some e \<Rightarrow> Inl e
                | None \<Rightarrow>
                    Inr ({r. Inr r \<in> set (map (\<lambda>n. fst (parse_raw_item_to_imdb_user_review ev tid
                                                          tn' tr' sl n st)) (review_results root))},
                         td, collect_more_data root))))"
proof (cases "html_fromstring ev enc raw")
  case (Inl e)
  then show ?thesis
    by (simp add: parse_raw_html_to_imdb_user_review_set_and_more_data_def)
next
  case (Inr root)
  show ?thesis
  proof (cases "discover_title ev root tn tr")
    case (Inl e)
    then show ?thesis using Inr
      by (simp add: parse_raw_html_to_imdb_user_review_set_and_more_data_def)
  next
    case t: (Inr x)
    obtain tn' tr' td where x: "x = (tn', tr', td)" by (cases x)
    obtain res st' where
      p: "parse_items ev tid tn' tr' sl (review_results root) {} st = (res, st')"
      by (cases "parse_items ev tid tn' tr' sl (review_results root) {} st")
    have "res = (case first_error (map (\<lambda>n. fst (parse_raw_item_to_imdb_user_review ev tid tn' tr'
                                                    sl n st)) (review_results root)) of
                  Some e \<Rightarrow> Inl e
                | None \<Rightarrow>
                    Inr ({r. Inr r \<in> set (map (\<lambda>n. fst (parse_raw_item_to_imdb_user_review ev tid
                                                          tn' tr' sl n st)) (review_results root))}))"
      using parse_items_fst [of ev tid tn' tr' sl "review_results root" "{}" st st] p
      by (simp split: option.splits)
    then show ?thesis
      using Inr t x p
      by (auto simp add: parse_raw_html_to_imdb_user_review_set_and_more_data_def
          split: option.splits)
  qed
qed

section \<open>Facts about the driver\<close>

lemma valid_value_empty: "valid_value_from_dict [] k = None"
  by (simp add: valid_value_from_dict_def)

lemma decide_requests: "requests (decide_continuation md s) = requests s"
  and decide_reviews: "user_review_set (decide_continuation md s) = user_review_set s"
  by (simp_all add: decide_continuation_def split: option.splits)

lemma decide_no_key:
  "valid_value_from_dict md ''data-key'' = None \<Longrightarrow> \<not> load_more_data (decide_continuation md s)"
  by (simp add: decide_continuation_def)

lemma decide_no_base:
  "valid_value_from_dict md ''data-ajaxurl'' = None \<Longrightarrow> load_more_data_base_url s = None \<Longrightarrow>
   \<not> load_more_data (decide_continuation md s)"
  by (simp add: decide_continuation_def split: option.splits)

lemma decide_fields:
  "known_title_name (decide_continuation md s) = known_title_name s"
  "known_title_relative_url (decide_continuation md s) = known_title_relative_url s"
  "process (decide_continuation md s) = process s"
  by (simp_all add: decide_continuation_def split: option.splits)

lemma decide_learned:
  "valid_value_from_dict md ''data-key'' = Some k \<Longrightarrow> load_more_data_base_url s = Some b \<Longrightarrow>
   load_more_data (decide_continuation md s) = load_more_data s
   \<and> load_more_data_base_url (decide_continuation md s) = Some b
   \<and> current_url (decide_continuation md s)
       = with_query b [(''ref_'', ''undefined''), (''paginationKey'', k)]"
  by (auto simp add: decide_continuation_def valid_value_empty)

lemma decide_first:
  "valid_value_from_dict md ''data-key'' = Some k \<Longrightarrow>
   valid_value_from_dict md ''data-ajaxurl'' = Some a \<Longrightarrow> load_more_data_base_url s = None \<Longrightarrow>
   load_more_data (decide_continuation md s) = load_more_data s
   \<and> load_more_data_base_url (decide_continuation md s) = Some (with_path BASE_IMDB_URL a)
   \<and> current_url (decide_continuation md s)
       = with_query (with_path BASE_IMDB_URL a) [(''ref_'', ''undefined''), (''paginationKey'', k)]"
  by (auto simp add: decide_continuation_def valid_value_empty)

lemma merged_fields:
  "load_more_data_base_url (merged sd resp recs td st' s) = load_more_data_base_url s"
  "load_more_data (merged sd resp recs td st' s) = load_more_data s"
  "requests (merged sd resp recs td st' s) = requests s @ [url_str (current_url s)]"
  "user_review_set (merged sd resp recs td st' s) = user_review_set s \<union> recs"
  by (simp_all add: merged_def merge_page_def save_page_def split: option.splits)

lemma merged_title:
  "known_title_name (merged sd resp recs [] st' s) = known_title_name s"
  "known_title_relative_url (merged sd resp recs [] st' s) = known_title_relative_url s"
  by (simp_all add: merged_def merge_page_def save_page_def valid_value_empty
      split: option.splits)

lemma page_fst:
  "fst (parse_raw_html_to_imdb_user_review_set_and_more_data ev tid tn tr sl raw enc st)
     = fst (parse_raw_html_to_imdb_user_review_set_and_more_data ev tid tn tr sl raw enc st')"
proof -
  have a: "\<And>tn' tr' n. fst (parse_raw_item_to_imdb_user_review ev tid tn' tr' sl n st)
      = fst (parse_raw_item_to_imdb_user_review ev tid tn' tr' sl n C_locale)"
    by (rule item_fst)
  have b: "\<And>tn' tr' n. fst (parse_raw_item_to_imdb_user_review ev tid tn' tr' sl n st')
      = fst (parse_raw_item_to_imdb_user_review ev tid tn' tr' sl n C_locale)"
    by (rule item_fst)
  show ?thesis
    unfolding page_result [of ev tid tn tr sl raw enc st]
      page_result [of ev tid tn tr sl raw enc st'] a b ..
qed

lemma crawl_body_ok:
  assumes "client_get ev (requests s) (url_str (current_url s)) = Inr resp"
    and "status_code resp < 400 \<or> 600 \<le> status_code resp"
    and "fst (parse_raw_html_to_imdb_user_review_set_and_more_data ev tid (known_title_name s)
            (known_title_relative_url s) sl (resp_content resp) (resp_encoding resp) (process s))
         = Inr (recs, td, md)"
  shows "\<exists>st'. crawl_body ev tid sl sd s = Inr (decide_continuation md (merged sd resp recs td st' s))"
proof -
  obtain st' where "parse_raw_html_to_imdb_user_review_set_and_more_data ev tid (known_title_name s)
            (known_title_relative_url s) sl (resp_content resp) (resp_encoding resp) (process s)
         = (Inr (recs, td, md), st')"
    using assms(3)
    by (cases "parse_raw_html_to_imdb_user_review_set_and_more_data ev tid (known_title_name s)
            (known_title_relative_url s) sl (resp_content resp) (resp_encoding resp) (process s)") auto
  then have "crawl_body ev tid sl sd s = Inr (decide_continuation md (merged sd resp recs td st' s))"
    using assms(1,2)
    by (auto simp add: crawl_body_def Let_def merged_def save_page_def split: option.splits)
  then show ?thesis ..
qed

lemma crawl_body_error_status:
  "client_get ev (requests s) (url_str (current_url s)) = Inr resp \<Longrightarrow>
   400 \<le> status_code resp \<Longrightarrow> status_code resp < 600 \<Longrightarrow>
   crawl_body ev tid sl sd s
     = Inr (s\<lparr>requests := requests s @ [url_str (current_url s)], load_more_data := False\<rparr>)"
  by (simp add: crawl_body_def Let_def)

lemma crawl_while_stop:
  "load_more_data s \<Longrightarrow> crawl_body ev tid sl sd s = Inr s' \<Longrightarrow> \<not> load_more_data s' \<Longrightarrow>
   crawl_while ev tid sl sd s = Some (Inr s')"
  by (subst crawl_while.simps, simp, subst crawl_while.simps, simp)

lemma crawl_while_step:
  "load_more_data s \<Longrightarrow> crawl_body ev tid sl sd s = Inr s' \<Longrightarrow>
   crawl_while ev tid sl sd s = crawl_while ev tid sl sd s'"
  by (subst crawl_while.simps, simp)

lemma page_more_data:
  "html_fromstring ev enc raw = Inr root \<Longrightarrow>
   fst (parse_raw_html_to_imdb_user_review_set_and_more_data ev tid tn tr sl raw enc st)
     = Inr (recs, td, md) \<Longrightarrow> md = collect_more_data root"
  by (auto simp: parse_raw_html_to_imdb_user_review_set_and_more_data_def
      split: sum.splits prod.splits)

lemma collect_more_data_key:
  "load_more_data_results root = n # ns \<Longrightarrow>
   valid_value_from_dict (collect_more_data root) ''data-key''
     = valid_value_from_dict (attrib (fst n)) ''data-key''"
  by (auto simp: collect_more_data_def valid_value_from_dict_def update_conv'
      split: option.splits if_splits)

lemma collect_more_data_ajaxurl:
  "load_more_data_results root = n # ns \<Longrightarrow>
   valid_value_from_dict (collect_more_data root) ''data-ajaxurl''
     = valid_value_from_dict (attrib (fst n)) ''data-ajaxurl''"
  by (auto simp: collect_more_data_def valid_value_from_dict_def update_conv'
      split: option.splits if_splits)

lemma crawl_body_requests:
  "crawl_body ev tid sl sd s = Inr s' \<Longrightarrow> requests s' = requests s @ [url_str (current_url s)]"
  by (auto simp: crawl_body_def Let_def decide_requests merge_page_def save_page_def
      split: sum.splits if_splits prod.splits option.splits)

lemma crawl_body_raise:
  "client_get ev (requests s) (url_str (current_url s)) = Inl e \<Longrightarrow>
   crawl_body ev tid sl sd s = Inl e"
  by (simp add: crawl_body_def)

lemma crawl_while_raise:
  "load_more_data s \<Longrightarrow> crawl_body ev tid sl sd s = Inl e \<Longrightarrow>
   crawl_while ev tid sl sd s = Some (Inl e)"
  by (subst crawl_while.simps, simp)

text \<open>When a turn of the loop leaves the flag set, the loop takes another turn, which
  starts by asking the server for the stored URL.\<close>

lemma loop_goes_on:
  assumes "load_more_data s" and "crawl_body ev tid sl sd s = Inr s'" and "load_more_data s'"
  shows "crawl_while ev tid sl sd s = crawl_while ev tid sl sd s'
    \<and> (\<forall>e. client_get ev (requests s') (url_str (current_url s')) = Inl e \<longrightarrow>
          crawl_while ev tid sl sd s = Some (Inl e))
    \<and> (\<forall>resp'. client_get ev (requests s') (url_str (current_url s')) = Inr resp'
            \<and> 400 \<le> status_code resp' \<and> status_code resp' < 600 \<longrightarrow>
          crawl_while ev tid sl sd s
            = Some (Inr (s'\<lparr>requests := requests s' @ [url_str (current_url s')],
                            load_more_data := False\<rparr>)))
    \<and> (\<forall>s''. crawl_body ev tid sl sd s' = Inr s'' \<longrightarrow>
          requests s'' = requests s' @ [url_str (current_url s')])"
proof -
  have step: "crawl_while ev tid sl sd s = crawl_while ev tid sl sd s'"
    using assms(1,2) by (rule crawl_while_step)
  have "crawl_while ev tid sl sd s' = Some (Inl e)"
    if "client_get ev (requests s') (url_str (current_url s')) = Inl e" for e
    using assms(3) crawl_body_raise [OF that] by (rule crawl_while_raise)
  moreover have "crawl_while ev tid sl sd s'
      = Some (Inr (s'\<lparr>requests := requests s' @ [url_str (current_url s')],
                      load_more_data := False\<rparr>))"
    if "client_get ev (requests s') (url_str (current_url s')) = Inr resp'
        \<and> 400 \<le> status_code resp' \<and> status_code resp' < 600" for resp'
  proof -
    have "crawl_body ev tid sl sd s'
        = Inr (s'\<lparr>requests := requests s' @ [url_str (current_url s')],
                  load_more_data := False\<rparr>)"
      using that crawl_body_error_status [of ev s' resp' tid sl sd] by simp
    then show ?thesis
      using assms(3) by (intro crawl_while_stop) simp_all
  qed
  ultimately show ?thesis
    using step crawl_body_requests [of ev tid sl sd s'] by auto
qed

lemma collect_more_data_none:
  "load_more_data_results root = [] \<Longrightarrow> collect_more_data root = []"
  by (simp add: collect_more_data_def)

lemma update_nonempty: "AList.update k v al \<noteq> []"
  by (cases al) auto

lemma collect_more_data_empty:
  "load_more_data_results root = n # ns \<Longrightarrow>
   (collect_more_data root = [])
     = (valid_value_from_dict (attrib (fst n)) ''data-key'' = None
        \<and> valid_value_from_dict (attrib (fst n)) ''data-ajaxurl'' = None)"
  by (auto simp: collect_more_data_def update_nonempty split: option.splits)

section \<open>Pages and states of the concrete runs\<close>

lemma page1_c6:
  "fst (parse_raw_html_to_imdb_user_review_set_and_more_data ev_c6 ''tt1'' None None False
          ''page1'' ''utf-8'' st_pt)
     = Inr ({rec_c2}, [], [(''data-key'', ''abc123''), (''data-ajaxurl'', ''/title/tt1/_ajax'')])"
  by code_simp

lemma page1_c8:
  "fst (parse_raw_html_to_imdb_user_review_set_and_more_data ev_c8 ''tt1'' None None False
          ''page1'' ''utf-8'' st_pt)
     = Inr ({rec_c2}, [], [(''data-key'', ''abc123''), (''data-ajaxurl'', ''/title/tt1/_ajax'')])"
  by code_simp

lemma page2_c8:
  "fst (parse_raw_html_to_imdb_user_review_set_and_more_data ev_c8 ''tt1'' None None False
          ''page2'' ''utf-8'' st_pt)
     = Inr ({}, [], [(''data-key'', ''k2'')])"
  by code_simp

lemma url_initial: "url_str (current_url (initial_state ''tt1'' st)) = url_p1"
  by (simp add: initial_state_def with_path_def BASE_IMDB_URL_def url_str_def
      RELATIVE_IMDB_USER_REVIEWS_URL_def url_p1_def)

lemma first_page_state:
  assumes "client_get ev [] url_p1 = Inr (ok_response ''page1'')"
    and "fst (parse_raw_html_to_imdb_user_review_set_and_more_data ev ''tt1'' None None False
          ''page1'' ''utf-8'' st_pt)
     = Inr ({rec_c2}, [], [(''data-key'', ''abc123''), (''data-ajaxurl'', ''/title/tt1/_ajax'')])"
  shows "\<exists>s1. crawl_body ev ''tt1'' False None (initial_state ''tt1'' st_pt) = Inr s1
     \<and> load_more_data s1 \<and> url_str (current_url s1) = url_p2
     \<and> user_review_set s1 = {rec_c2} \<and> requests s1 = [url_p1]
     \<and> load_more_data_base_url s1 = Some (with_path BASE_IMDB_URL ''/title/tt1/_ajax'')
     \<and> known_title_name s1 = None \<and> known_title_relative_url s1 = None"
proof -
  let ?s0 = "initial_state ''tt1'' st_pt"
  let ?md = "[(''data-key'', ''abc123''), (''data-ajaxurl'', ''/title/tt1/_ajax'')]"
  have f: "requests ?s0 = []" "known_title_name ?s0 = None" "known_title_relative_url ?s0 = None"
    "process ?s0 = st_pt" "load_more_data ?s0" "load_more_data_base_url ?s0 = None"
    "user_review_set ?s0 = {}"
    by (simp_all add: initial_state_def)
  have g: "client_get ev (requests ?s0) (url_str (current_url ?s0)) = Inr (ok_response ''page1'')"
    using assms(1) by (simp add: f url_initial)
  have p: "fst (parse_raw_html_to_imdb_user_review_set_and_more_data ev ''tt1''
      (known_title_name ?s0) (known_title_relative_url ?s0) False
      (resp_content (ok_response ''page1'')) (resp_encoding (ok_response ''page1'')) (process ?s0))
      = Inr ({rec_c2}, [], ?md)"
    using assms(2) by (simp add: f ok_response_def)
  have o: "status_code (ok_response ''page1'') < 400 \<or> 600 \<le> status_code (ok_response ''page1'')"
    by (simp add: ok_response_def)
  obtain st' where b: "crawl_body ev ''tt1'' False None ?s0
      = Inr (decide_continuation ?md (merged None (ok_response ''page1'') {rec_c2} [] st' ?s0))"
    using crawl_body_ok [OF g o p] by blast
  have k: "valid_value_from_dict ?md ''data-key'' = Some ''abc123''"
    "valid_value_from_dict ?md ''data-ajaxurl'' = Some ''/title/tt1/_ajax''"
    by (simp_all add: valid_value_from_dict_def)
  have m: "load_more_data_base_url (merged None (ok_response ''page1'') {rec_c2} [] st' ?s0) = None"
    by (simp add: merged_fields f)
  have u: "url_str (with_query (with_path BASE_IMDB_URL ''/title/tt1/_ajax'')
      [(''ref_'', ''undefined''), (''paginationKey'', ''abc123'')]) = url_p2"
    by (simp add: with_query_def with_path_def BASE_IMDB_URL_def url_str_def url_p2_def)
  show ?thesis
    using b decide_first [OF k m] u
    by (simp add: decide_requests decide_reviews decide_fields merged_fields merged_title f
        url_initial)
qed

section \<open>The claims about the page parser and the driver\<close>

text \<open>
  C5 (as amended). The page parser handles no exception. It raises what lxml raises on
  the input, else what the title link raises, else the exception of the first review block
  on which the field extractor raises; nothing of the page is returned then, neither the
  records of the other blocks nor the continuation. Only when none of these raises does
  it return a result: the records of all review blocks, the title data and the continuation
  data (an empty set and no continuation when the document has no review block and no
  \<open>load-more-data\<close> node).
\<close>

theorem C5_page_parser_propagates:
  "fst (parse_raw_html_to_imdb_user_review_set_and_more_data ev tid tn tr sl raw enc st) =
     (case html_fromstring ev enc raw of
        Inl e \<Rightarrow> Inl e
      | Inr root \<Rightarrow>
          (case discover_title ev root tn tr of
             Inl e \<Rightarrow> Inl e
           | Inr (tn', tr', td) \<Rightarrow>
               (case first_error (map (\<lambda>n. fst (parse_raw_item_to_imdb_user_review ev tid tn' tr'
                                                    sl n st)) (review_results root)) of
                  Some e \<Rightarrow> Inl e
                | None \<Rightarrow>
                    Inr ({r. Inr r \<in> set (map (\<lambda>n. fst (parse_raw_item_to_imdb_user_review ev tid
                                                          tn' tr' sl n st)) (review_results root))},
                         td, collect_more_data root))))"
  by (rule page_result)

lemma c5_title: "discover_title ev_c5 (doc_c5, []) None None = Inr (None, None, [])"
  by code_simp

lemma c5_items:
  "map (\<lambda>n. fst (parse_raw_item_to_imdb_user_review ev_c5 ''tt1'' None None False n st_pt))
     (review_results (doc_c5, [])) = [Inl ValueError, Inr rec_c2]"
  by code_simp

theorem C5_page_parser_propagates_witness:
  "fst (parse_raw_html_to_imdb_user_review_set_and_more_data ev_c5 ''tt1'' None None False
          ''<html>'' ''utf-8'' st_pt) = Inl ValueError"
proof -
  have "html_fromstring ev_c5 ''utf-8'' ''<html>'' = Inr (doc_c5, [])"
    by (simp add: ev_c5_def)
  then show ?thesis
    using C5_page_parser_propagates [of ev_c5 "''tt1''" None None False "''<html>''" "''utf-8''"
        st_pt]
    by (simp add: c5_title c5_items)
qed

theorem C5_counterexample:
  "fst (parse_raw_html_to_imdb_user_review_set_and_more_data ev_c5 ''tt1'' None None False
          ''<html>'' ''utf-8'' st_pt) = Inl ValueError
   \<and> map fst (review_results (doc_c5, [])) = [review_c4, review_c2]
   \<and> fst (parse_raw_item_to_imdb_user_review ev_c5 ''tt1'' None None False node_c5 st_pt)
       = Inr rec_c2"
proof -
  have "fst (parse_raw_html_to_imdb_user_review_set_and_more_data ev_c5 ''tt1'' None None False
          ''<html>'' ''utf-8'' st_pt) = Inl ValueError"
  proof -
    have "html_fromstring ev_c5 ''utf-8'' ''<html>'' = Inr (doc_c5, [])"
      by (simp add: ev_c5_def)
    then show ?thesis
      by (simp add: page_result c5_title c5_items)
  qed
  moreover have "map fst (review_results (doc_c5, [])) = [review_c4, review_c2]"
    by code_simp
  moreover have "fst (parse_raw_item_to_imdb_user_review ev_c5 ''tt1'' None None False node_c5
      st_pt) = Inr rec_c2"
    by code_simp
  ultimately show ?thesis by simp
qed



text \<open>
  C7. When the loop is running and the parsed page reports the key \<open>abc123\<close> and the path
  \<open>/title/tt1/_ajax\<close>, the URL the driver stores is the learned base URL (the base host
  with this path when none was learned before, else the one learned earlier) with exactly
  the two query parameters \<open>ref_=undefined\<close> and \<open>paginationKey=abc123\<close>, and the loop takes
  another turn whose request goes to this URL: an exception of that request is the
  outcome of the crawl, an error status of it ends the crawl with this URL as the last
  request made, and any turn that completes has recorded this URL as its request.
\<close>

theorem C7_next_request_url:
  assumes "load_more_data s"
    and "client_get ev (requests s) (url_str (current_url s)) = Inr resp"
    and "status_code resp < 400 \<or> 600 \<le> status_code resp"
    and "fst (parse_raw_html_to_imdb_user_review_set_and_more_data ev tid (known_title_name s)
            (known_title_relative_url s) sl (resp_content resp) (resp_encoding resp) (process s))
         = Inr (recs, td, md)"
    and "valid_value_from_dict md ''data-key'' = Some ''abc123''"
    and "valid_value_from_dict md ''data-ajaxurl'' = Some ''/title/tt1/_ajax''"
  shows "\<exists>s'. crawl_body ev tid sl sd s = Inr s'
           \<and> load_more_data s'
           \<and> current_url s'
               = (case load_more_data_base_url s of
                    None \<Rightarrow> with_path BASE_IMDB_URL ''/title/tt1/_ajax''
                  | Some b \<Rightarrow> b)
                 \<lparr>query := [(''ref_'', ''undefined''), (''paginationKey'', ''abc123'')]\<rparr>
           \<and> query (current_url s')
               = [(''ref_'', ''undefined''), (''paginationKey'', ''abc123'')]
           \<and> (load_more_data_base_url s = None \<longrightarrow>
                url_str (current_url s')
                  = ''https://www.imdb.com/title/tt1/_ajax?ref_=undefined&paginationKey=abc123'')
           \<and> requests s' = requests s @ [url_str (current_url s)]
           \<and> crawl_while ev tid sl sd s = crawl_while ev tid sl sd s'
           \<and> (\<forall>e. client_get ev (requests s') (url_str (current_url s')) = Inl e \<longrightarrow>
                 crawl_while ev tid sl sd s = Some (Inl e))
           \<and> (\<forall>resp'. client_get ev (requests s') (url_str (current_url s')) = Inr resp'
                   \<and> 400 \<le> status_code resp' \<and> status_code resp' < 600 \<longrightarrow>
                 crawl_while ev tid sl sd s
                   = Some (Inr (s'\<lparr>requests := requests s' @ [url_str (current_url s')],
                                   load_more_data := False\<rparr>)))
           \<and> (\<forall>s''. crawl_body ev tid sl sd s' = Inr s'' \<longrightarrow>
                 requests s'' = requests s' @ [url_str (current_url s')])"
proof -
  obtain st' where b: "crawl_body ev tid sl sd s
      = Inr (decide_continuation md (merged sd resp recs td st' s))"
    using crawl_body_ok [OF assms(2,3,4)] by blast
  let ?s' = "decide_continuation md (merged sd resp recs td st' s)"
  have u: "load_more_data ?s'
      \<and> current_url ?s'
          = (case load_more_data_base_url s of
               None \<Rightarrow> with_path BASE_IMDB_URL ''/title/tt1/_ajax''
             | Some b \<Rightarrow> b)
            \<lparr>query := [(''ref_'', ''undefined''), (''paginationKey'', ''abc123'')]\<rparr>"
  proof (cases "load_more_data_base_url s")
    case None
    then show ?thesis
      using decide_first [OF assms(5,6), of "merged sd resp recs td st' s"] assms(1)
      by (simp add: merged_fields with_query_def)
  next
    case (Some b0)
    then show ?thesis
      using decide_learned [OF assms(5), of "merged sd resp recs td st' s" b0] assms(1)
      by (simp add: merged_fields with_query_def)
  qed
  then have q: "query (current_url ?s')
      = [(''ref_'', ''undefined''), (''paginationKey'', ''abc123'')]"
    by simp
  have n: "load_more_data_base_url s = None \<longrightarrow> url_str (current_url ?s')
      = ''https://www.imdb.com/title/tt1/_ajax?ref_=undefined&paginationKey=abc123''"
    using u by (simp add: with_path_def BASE_IMDB_URL_def url_str_def)
  have r: "requests ?s' = requests s @ [url_str (current_url s)]"
    using b by (rule crawl_body_requests)
  show ?thesis
    using b u q n r loop_goes_on [OF assms(1) b] by (intro exI [of _ ?s']) blast
qed

theorem C7_next_request_url_witness:
  "\<exists>s'. crawl_body ev_c6 ''tt1'' False None (initial_state ''tt1'' st_pt) = Inr s'
      \<and> query (current_url s') = [(''ref_'', ''undefined''), (''paginationKey'', ''abc123'')]
      \<and> url_str (current_url s') = url_p2
      \<and> map_option (map_sum id requests)
           (crawl_while ev_c6 ''tt1'' False None (initial_state ''tt1'' st_pt))
          = Some (Inr [url_p1, url_p2])"
proof -
  let ?s0 = "initial_state ''tt1'' st_pt"
  let ?md = "[(''data-key'', ''abc123''), (''data-ajaxurl'', ''/title/tt1/_ajax'')]"
  have f: "requests ?s0 = []" "known_title_name ?s0 = None" "known_title_relative_url ?s0 = None"
    "process ?s0 = st_pt" "load_more_data ?s0" "load_more_data_base_url ?s0 = None"
    by (simp_all add: initial_state_def)
  have g: "client_get ev_c6 (requests ?s0) (url_str (current_url ?s0))
      = Inr (ok_response ''page1'')"
    by (simp add: f url_initial ev_c6_def)
  have o: "status_code (ok_response ''page1'') < 400 \<or> 600 \<le> status_code (ok_response ''page1'')"
    by (simp add: ok_response_def)
  have p: "fst (parse_raw_html_to_imdb_user_review_set_and_more_data ev_c6 ''tt1''
      (known_title_name ?s0) (known_title_relative_url ?s0) False
      (resp_content (ok_response ''page1'')) (resp_encoding (ok_response ''page1'')) (process ?s0))
      = Inr ({rec_c2}, [], ?md)"
    using page1_c6 by (simp add: f ok_response_def)
  have k: "valid_value_from_dict ?md ''data-key'' = Some ''abc123''"
    "valid_value_from_dict ?md ''data-ajaxurl'' = Some ''/title/tt1/_ajax''"
    by (simp_all add: valid_value_from_dict_def)
  show ?thesis
    using C7_next_request_url [OF f(5) g o p k, of None]
    apply (elim exE conjE)
    subgoal for s'
    proof -
      assume b: "crawl_body ev_c6 ''tt1'' False None ?s0 = Inr s'"
        and q: "query (current_url s') = [(''ref_'', ''undefined''), (''paginationKey'', ''abc123'')]"
        and u: "load_more_data_base_url ?s0 = None \<longrightarrow> url_str (current_url s')
          = ''https://www.imdb.com/title/tt1/_ajax?ref_=undefined&paginationKey=abc123''"
        and r: "requests s' = requests ?s0 @ [url_str (current_url ?s0)]"
        and e: "\<forall>resp'. client_get ev_c6 (requests s') (url_str (current_url s')) = Inr resp'
                   \<and> 400 \<le> status_code resp' \<and> status_code resp' < 600 \<longrightarrow>
                 crawl_while ev_c6 ''tt1'' False None ?s0
                   = Some (Inr (s'\<lparr>requests := requests s' @ [url_str (current_url s')],
                                   load_more_data := False\<rparr>))"
      have u2: "url_str (current_url s') = url_p2"
        using u by (simp add: f url_p2_def)
      have "client_get ev_c6 (requests s') (url_str (current_url s')) = Inr not_found
          \<and> 400 \<le> status_code not_found \<and> status_code not_found < 600"
        by (simp add: u2 ev_c6_def url_p1_def url_p2_def not_found_def)
      then have "crawl_while ev_c6 ''tt1'' False None ?s0
          = Some (Inr (s'\<lparr>requests := requests s' @ [url_str (current_url s')],
                          load_more_data := False\<rparr>))"
        using e by blast
      then show ?thesis
        using b q u2 r by (intro exI [of _ s']) (simp add: f url_initial)
    qed
    done
qed

text \<open>
  C8 (as amended). The page parser looks for the \<open>load-more-data\<close> node among the proper
  descendants of the node lxml returns. When there is none (also when that node is the
  returned node itself), it reports no continuation and pagination ends at that page.
  Otherwise, with \<open>n\<close> the first such node, it reports each of the two attributes that is
  present and not empty, and nothing only when both are missing. When the key is missing,
  pagination ends at that page. When only the path is missing, pagination ends at that
  page if no base URL was learned from an earlier page; if one was learned, the loop takes
  another turn, whose request goes to the learned base URL with the key of this page.
\<close>

theorem C8_missing_attribute:
  assumes "load_more_data s"
    and "client_get ev (requests s) (url_str (current_url s)) = Inr resp"
    and "status_code resp < 400 \<or> 600 \<le> status_code resp"
    and "html_fromstring ev (resp_encoding resp) (resp_content resp) = Inr root"
    and "fst (parse_raw_html_to_imdb_user_review_set_and_more_data ev tid (known_title_name s)
            (known_title_relative_url s) sl (resp_content resp) (resp_encoding resp) (process s))
         = Inr (recs, td, md)"
  shows "\<exists>s'. crawl_body ev tid sl sd s = Inr s'
      \<and> requests s' = requests s @ [url_str (current_url s)]
      \<and> md = collect_more_data root
      \<and> (case load_more_data_results root of
            [] \<Rightarrow> md = [] \<and> \<not> load_more_data s' \<and> crawl_while ev tid sl sd s = Some (Inr s')
          | n # ns \<Rightarrow>
              valid_value_from_dict md ''data-key''
                = valid_value_from_dict (attrib (fst n)) ''data-key''
            \<and> valid_value_from_dict md ''data-ajaxurl''
                = valid_value_from_dict (attrib (fst n)) ''data-ajaxurl''
            \<and> (md = [])
                = (valid_value_from_dict (attrib (fst n)) ''data-key'' = None
                   \<and> valid_value_from_dict (attrib (fst n)) ''data-ajaxurl'' = None)
            \<and> (valid_value_from_dict (attrib (fst n)) ''data-key'' = None \<longrightarrow>
                 \<not> load_more_data s' \<and> crawl_while ev tid sl sd s = Some (Inr s'))
            \<and> (valid_value_from_dict (attrib (fst n)) ''data-ajaxurl'' = None
                 \<and> load_more_data_base_url s = None \<longrightarrow>
                 \<not> load_more_data s' \<and> crawl_while ev tid sl sd s = Some (Inr s'))
            \<and> (\<forall>k b. valid_value_from_dict (attrib (fst n)) ''data-key'' = Some k
                       \<and> load_more_data_base_url s = Some b \<longrightarrow>
                     load_more_data s'
                     \<and> current_url s'
                         = with_query b [(''ref_'', ''undefined''), (''paginationKey'', k)]
                     \<and> crawl_while ev tid sl sd s = crawl_while ev tid sl sd s'
                     \<and> (\<forall>e. client_get ev (requests s') (url_str (current_url s')) = Inl e \<longrightarrow>
                           crawl_while ev tid sl sd s = Some (Inl e))
                     \<and> (\<forall>resp'. client_get ev (requests s') (url_str (current_url s'))
                               = Inr resp'
                             \<and> 400 \<le> status_code resp' \<and> status_code resp' < 600 \<longrightarrow>
                           crawl_while ev tid sl sd s
                             = Some (Inr (s'\<lparr>requests := requests s'
                                               @ [url_str (current_url s')],
                                             load_more_data := False\<rparr>)))
                     \<and> (\<forall>s''. crawl_body ev tid sl sd s' = Inr s'' \<longrightarrow>
                           requests s'' = requests s' @ [url_str (current_url s')])))"
proof -
  obtain st' where b: "crawl_body ev tid sl sd s
      = Inr (decide_continuation md (merged sd resp recs td st' s))"
    using crawl_body_ok [OF assms(2,3,5)] by blast
  let ?m = "merged sd resp recs td st' s"
  let ?s' = "decide_continuation md ?m"
  have md: "md = collect_more_data root"
    using assms(4,5) by (rule page_more_data)
  have r: "requests ?s' = requests s @ [url_str (current_url s)]"
    using b by (rule crawl_body_requests)
  have stop: "\<not> load_more_data ?s' \<and> crawl_while ev tid sl sd s = Some (Inr ?s')"
    if "\<not> load_more_data ?s'"
    using that crawl_while_stop [OF assms(1) b] by simp
  show ?thesis
  proof (cases "load_more_data_results root")
    case Nil
    then have e: "md = []"
      unfolding md by (rule collect_more_data_none)
    then have "\<not> load_more_data ?s'"
      by (simp add: decide_continuation_def)
    then show ?thesis
      using b r md e stop Nil by (intro exI [of _ ?s']) simp
  next
    case (Cons n ns)
    have k: "valid_value_from_dict md ''data-key''
        = valid_value_from_dict (attrib (fst n)) ''data-key''"
      unfolding md using Cons by (rule collect_more_data_key)
    have a: "valid_value_from_dict md ''data-ajaxurl''
        = valid_value_from_dict (attrib (fst n)) ''data-ajaxurl''"
      unfolding md using Cons by (rule collect_more_data_ajaxurl)
    have e: "(md = [])
        = (valid_value_from_dict (attrib (fst n)) ''data-key'' = None
           \<and> valid_value_from_dict (attrib (fst n)) ''data-ajaxurl'' = None)"
      unfolding md using Cons by (rule collect_more_data_empty)
    have c1: "\<not> load_more_data ?s' \<and> crawl_while ev tid sl sd s = Some (Inr ?s')"
      if "valid_value_from_dict (attrib (fst n)) ''data-key'' = None"
      using that k by (intro stop) (simp add: decide_no_key)
    have c2: "\<not> load_more_data ?s' \<and> crawl_while ev tid sl sd s = Some (Inr ?s')"
      if "valid_value_from_dict (attrib (fst n)) ''data-ajaxurl'' = None
          \<and> load_more_data_base_url s = None"
      using that a by (intro stop) (simp add: decide_no_base merged_fields)
    have c3: "load_more_data ?s'
        \<and> current_url ?s' = with_query b0 [(''ref_'', ''undefined''), (''paginationKey'', k0)]
        \<and> crawl_while ev tid sl sd s = crawl_while ev tid sl sd ?s'
        \<and> (\<forall>e. client_get ev (requests ?s') (url_str (current_url ?s')) = Inl e \<longrightarrow>
              crawl_while ev tid sl sd s = Some (Inl e))
        \<and> (\<forall>resp'. client_get ev (requests ?s') (url_str (current_url ?s')) = Inr resp'
                \<and> 400 \<le> status_code resp' \<and> status_code resp' < 600 \<longrightarrow>
              crawl_while ev tid sl sd s
                = Some (Inr (?s'\<lparr>requests := requests ?s' @ [url_str (current_url ?s')],
                                 load_more_data := False\<rparr>)))
        \<and> (\<forall>s''. crawl_body ev tid sl sd ?s' = Inr s'' \<longrightarrow>
              requests s'' = requests ?s' @ [url_str (current_url ?s')])"
      if "valid_value_from_dict (attrib (fst n)) ''data-key'' = Some k0
          \<and> load_more_data_base_url s = Some b0" for k0 b0
    proof -
      have d: "load_more_data ?s'
          \<and> current_url ?s' = with_query b0 [(''ref_'', ''undefined''), (''paginationKey'', k0)]"
        using decide_learned [of md k0 ?m b0] that k assms(1) by (simp add: merged_fields)
      then show ?thesis
        using loop_goes_on [OF assms(1) b] by blast
    qed
    show ?thesis
      apply (rule exI [of _ ?s'])
      apply (simp only: Cons list.case)
      apply (intro conjI allI impI)
      using b r md k a e c1 c2 c3 apply blast+
      done
  qed
qed

lemma p2_nodes: "map fst (load_more_data_results (doc_p2, [])) = [load_more_p2]"
  by code_simp

lemma single_nodes: "load_more_data_results node_single = []"
  by code_simp

lemma single_page:
  "fst (parse_raw_html_to_imdb_user_review_set_and_more_data ev_single ''tt1'' None None False
          ''page'' ''utf-8'' st_pt) = Inr ({}, [], [])"
  by code_simp

theorem C8_missing_attribute_witness:
  "valid_value_from_dict (attrib load_more_p2) ''data-ajaxurl'' = None
   \<and> map_option (map_sum id requests)
        (crawl_while ev_c8 ''tt1'' False None (initial_state ''tt1'' st_pt))
       = Some (Inr [url_p1, url_p2, url_p3])
   \<and> load_more_data_results node_single = []
   \<and> valid_value_from_dict (attrib (fst node_single)) ''data-key'' = Some ''abc123''
   \<and> valid_value_from_dict (attrib (fst node_single)) ''data-ajaxurl'' = Some ''/title/tt1/_ajax''
   \<and> map_option (map_sum id requests)
        (crawl_while ev_single ''tt1'' False None (initial_state ''tt1'' st_pt))
       = Some (Inr [url_p1])"
proof -
  let ?s0 = "initial_state ''tt1'' st_pt"
  have f: "requests ?s0 = []" "known_title_name ?s0 = None" "known_title_relative_url ?s0 = None"
    "process ?s0 = st_pt" "load_more_data ?s0"
    by (simp_all add: initial_state_def)
  \<comment> \<open>the run whose second page has a key and no path\<close>
  have g0: "client_get ev_c8 [] url_p1 = Inr (ok_response ''page1'')"
    by (simp add: ev_c8_def)
  obtain s1 where b1: "crawl_body ev_c8 ''tt1'' False None ?s0 = Inr s1"
    and l: "load_more_data s1" and u: "url_str (current_url s1) = url_p2"
    and q: "requests s1 = [url_p1]"
    and base: "load_more_data_base_url s1 = Some (with_path BASE_IMDB_URL ''/title/tt1/_ajax'')"
    and t: "known_title_name s1 = None" "known_title_relative_url s1 = None"
    using first_page_state [OF g0 page1_c8] by blast
  have g: "client_get ev_c8 (requests s1) (url_str (current_url s1)) = Inr (ok_response ''page2'')"
    by (simp add: u q ev_c8_def url_p1_def url_p2_def)
  have o: "status_code (ok_response ''page2'') < 400 \<or> 600 \<le> status_code (ok_response ''page2'')"
    by (simp add: ok_response_def)
  have fs: "html_fromstring ev_c8 (resp_encoding (ok_response ''page2''))
      (resp_content (ok_response ''page2'')) = Inr (doc_p2, [])"
    by (simp add: ev_c8_def ok_response_def fromstring_pages_def)
  obtain n where n: "load_more_data_results (doc_p2, []) = n # []" and fn: "fst n = load_more_p2"
    using p2_nodes by (cases "load_more_data_results (doc_p2, [])") auto
  have p: "fst (parse_raw_html_to_imdb_user_review_set_and_more_data ev_c8 ''tt1''
      (known_title_name s1) (known_title_relative_url s1) False
      (resp_content (ok_response ''page2'')) (resp_encoding (ok_response ''page2'')) (process s1))
      = Inr ({}, [], [(''data-key'', ''k2'')])"
    using page2_c8 page_fst [of ev_c8 "''tt1''" None None False "''page2''" "''utf-8''" "process s1" st_pt]
    by (simp add: t ok_response_def)
  have k: "valid_value_from_dict (attrib (fst n)) ''data-key'' = Some ''k2''"
    and a: "valid_value_from_dict (attrib load_more_p2) ''data-ajaxurl'' = None"
    by (simp_all add: fn load_more_p2_def valid_value_from_dict_def)
  have u3: "url_str (with_query (with_path BASE_IMDB_URL ''/title/tt1/_ajax'')
      [(''ref_'', ''undefined''), (''paginationKey'', ''k2'')]) = url_p3"
    by (simp add: with_query_def with_path_def BASE_IMDB_URL_def url_str_def url_p3_def)
  obtain s2 where r2: "requests s2 = requests s1 @ [url_str (current_url s1)]"
    and c2: "current_url s2 = with_query (with_path BASE_IMDB_URL ''/title/tt1/_ajax'')
        [(''ref_'', ''undefined''), (''paginationKey'', ''k2'')]"
    and e2: "\<forall>resp'. client_get ev_c8 (requests s2) (url_str (current_url s2)) = Inr resp'
        \<and> 400 \<le> status_code resp' \<and> status_code resp' < 600 \<longrightarrow>
        crawl_while ev_c8 ''tt1'' False None s1
          = Some (Inr (s2\<lparr>requests := requests s2 @ [url_str (current_url s2)],
                          load_more_data := False\<rparr>))"
    using C8_missing_attribute [OF l g o fs p, of None, unfolded n list.case] k base
    by blast
  have "client_get ev_c8 (requests s2) (url_str (current_url s2)) = Inr not_found
      \<and> 400 \<le> status_code not_found \<and> status_code not_found < 600"
    by (simp add: c2 u3 ev_c8_def url_p1_def url_p2_def url_p3_def not_found_def)
  then have "crawl_while ev_c8 ''tt1'' False None s1
      = Some (Inr (s2\<lparr>requests := requests s2 @ [url_str (current_url s2)],
                      load_more_data := False\<rparr>))"
    using e2 by blast
  moreover have "crawl_while ev_c8 ''tt1'' False None ?s0 = crawl_while ev_c8 ''tt1'' False None s1"
    using f(5) b1 by (rule crawl_while_step)
  ultimately have run8: "map_option (map_sum id requests)
      (crawl_while ev_c8 ''tt1'' False None ?s0) = Some (Inr [url_p1, url_p2, url_p3])"
    by (simp add: r2 q u c2 u3)
  \<comment> \<open>the page whose \<open>load-more-data\<close> node is the node that lxml returns\<close>
  have gs: "client_get ev_single (requests ?s0) (url_str (current_url ?s0))
      = Inr (ok_response ''page'')"
    by (simp add: ev_single_def)
  have os: "status_code (ok_response ''page'') < 400 \<or> 600 \<le> status_code (ok_response ''page'')"
    by (simp add: ok_response_def)
  have fss: "html_fromstring ev_single (resp_encoding (ok_response ''page''))
      (resp_content (ok_response ''page'')) = Inr node_single"
    by (simp add: ev_single_def)
  have ps: "fst (parse_raw_html_to_imdb_user_review_set_and_more_data ev_single ''tt1''
      (known_title_name ?s0) (known_title_relative_url ?s0) False
      (resp_content (ok_response ''page'')) (resp_encoding (ok_response ''page'')) (process ?s0))
      = Inr ({}, [], [])"
    using single_page by (simp add: f ok_response_def)
  obtain s' where "requests s' = requests ?s0 @ [url_str (current_url ?s0)]"
    and "crawl_while ev_single ''tt1'' False None ?s0 = Some (Inr s')"
    using C8_missing_attribute [OF f(5) gs os fss ps, of None, unfolded single_nodes list.case]
    by blast
  then have runs: "map_option (map_sum id requests)
      (crawl_while ev_single ''tt1'' False None ?s0) = Some (Inr [url_p1])"
    by (simp add: f url_initial)
  have attrs: "valid_value_from_dict (attrib (fst node_single)) ''data-key'' = Some ''abc123''"
    "valid_value_from_dict (attrib (fst node_single)) ''data-ajaxurl'' = Some ''/title/tt1/_ajax''"
    by (simp_all add: node_single_def load_more_p1_def valid_value_from_dict_def)
  show ?thesis
    using a run8 single_nodes attrs runs by simp
qed

theorem C8_counterexample:
  "valid_value_from_dict (attrib load_more_p2) ''data-ajaxurl'' = None
   \<and> collect_more_data (doc_p2, []) = [(''data-key'', ''k2'')]
   \<and> map_option (map_sum id requests)
        (crawl_while ev_c8 ''tt1'' False None (initial_state ''tt1'' st_pt))
       = Some (Inr [url_p1, url_p2, url_p3])"
proof -
  have "valid_value_from_dict (attrib load_more_p2) ''data-ajaxurl'' = None"
    by (simp add: load_more_p2_def valid_value_from_dict_def)
  moreover have "collect_more_data (doc_p2, []) = [(''data-key'', ''k2'')]"
    by code_simp
  moreover have "map_option (map_sum id requests)
        (crawl_while ev_c8 ''tt1'' False None (initial_state ''tt1'' st_pt))
       = Some (Inr [url_p1, url_p2, url_p3])"
    by code_simp
  ultimately show ?thesis by simp
qed

text \<open>
  C10. An attribute value that is present and empty is treated as an absent one:
  \<open>valid_value_from_dict\<close> gives \<open>None\<close> for it; a review block whose \<open>data-review-id\<close> is
  empty gives a record whose review id is null; and a page whose \<open>load-more-data\<close> node
  has an empty \<open>data-key\<close> reports no key, so that the loop ends with the request of that
  page.
\<close>

theorem C10_empty_attribute_absent:
  "(map_of d k = Some [] \<longrightarrow> valid_value_from_dict d k = None)
   \<and> (map_of (attrib (fst n)) ''data-review-id'' = Some []
        \<and> fst (parse_raw_item_to_imdb_user_review ev tid tn tr sl n st) = Inr r \<longrightarrow>
      review_id r = None)
   \<and> (load_more_data s
        \<and> client_get ev (requests s) (url_str (current_url s)) = Inr resp
        \<and> (status_code resp < 400 \<or> 600 \<le> status_code resp)
        \<and> html_fromstring ev (resp_encoding resp) (resp_content resp) = Inr root
        \<and> load_more_data_results root = m # ms
        \<and> map_of (attrib (fst m)) ''data-key'' = Some []
        \<and> fst (parse_raw_html_to_imdb_user_review_set_and_more_data ev tid (known_title_name s)
               (known_title_relative_url s) sl (resp_content resp) (resp_encoding resp)
               (process s)) = Inr (recs, td, md) \<longrightarrow>
      valid_value_from_dict md ''data-key'' = None
      \<and> (\<exists>s'. crawl_while ev tid sl sd s = Some (Inr s')
             \<and> requests s' = requests s @ [url_str (current_url s)]
             \<and> \<not> load_more_data s'))"
proof (intro conjI)
  show "map_of d k = Some [] \<longrightarrow> valid_value_from_dict d k = None"
    by (simp add: valid_value_from_dict_def)
next
  show "map_of (attrib (fst n)) ''data-review-id'' = Some []
        \<and> fst (parse_raw_item_to_imdb_user_review ev tid tn tr sl n st) = Inr r \<longrightarrow>
      review_id r = None"
  proof
    assume a: "map_of (attrib (fst n)) ''data-review-id'' = Some []
      \<and> fst (parse_raw_item_to_imdb_user_review ev tid tn tr sl n st) = Inr r"
    then have "review_id r = extract_review_id n"
      by (intro item_review_id [of ev tid tn tr sl n st]) simp
    then show "review_id r = None"
      using a by (simp add: extract_review_id_def valid_value_from_dict_def)
  qed
next
  show "load_more_data s
        \<and> client_get ev (requests s) (url_str (current_url s)) = Inr resp
        \<and> (status_code resp < 400 \<or> 600 \<le> status_code resp)
        \<and> html_fromstring ev (resp_encoding resp) (resp_content resp) = Inr root
        \<and> load_more_data_results root = m # ms
        \<and> map_of (attrib (fst m)) ''data-key'' = Some []
        \<and> fst (parse_raw_html_to_imdb_user_review_set_and_more_data ev tid (known_title_name s)
               (known_title_relative_url s) sl (resp_content resp) (resp_encoding resp)
               (process s)) = Inr (recs, td, md) \<longrightarrow>
      valid_value_from_dict md ''data-key'' = None
      \<and> (\<exists>s'. crawl_while ev tid sl sd s = Some (Inr s')
             \<and> requests s' = requests s @ [url_str (current_url s)]
             \<and> \<not> load_more_data s')"
  proof
  assume a: "load_more_data s
        \<and> client_get ev (requests s) (url_str (current_url s)) = Inr resp
        \<and> (status_code resp < 400 \<or> 600 \<le> status_code resp)
        \<and> html_fromstring ev (resp_encoding resp) (resp_content resp) = Inr root
        \<and> load_more_data_results root = m # ms
        \<and> map_of (attrib (fst m)) ''data-key'' = Some []
        \<and> fst (parse_raw_html_to_imdb_user_review_set_and_more_data ev tid (known_title_name s)
               (known_title_relative_url s) sl (resp_content resp) (resp_encoding resp)
               (process s)) = Inr (recs, td, md)"
  then have run: "load_more_data s"
    and get: "client_get ev (requests s) (url_str (current_url s)) = Inr resp"
    and ok: "status_code resp < 400 \<or> 600 \<le> status_code resp"
    and fs: "html_fromstring ev (resp_encoding resp) (resp_content resp) = Inr root"
    and node: "load_more_data_results root = m # ms"
    and empty: "map_of (attrib (fst m)) ''data-key'' = Some []"
    and page: "fst (parse_raw_html_to_imdb_user_review_set_and_more_data ev tid
               (known_title_name s) (known_title_relative_url s) sl (resp_content resp)
               (resp_encoding resp) (process s)) = Inr (recs, td, md)"
    by simp_all
  obtain st' where b: "crawl_body ev tid sl sd s
      = Inr (decide_continuation md (merged sd resp recs td st' s))"
    using crawl_body_ok [OF get ok page] by blast
  have md: "md = collect_more_data root"
    using fs page by (rule page_more_data)
  have k: "valid_value_from_dict md ''data-key'' = None"
    unfolding md collect_more_data_key [OF node]
    using empty by (simp add: valid_value_from_dict_def)
  have "\<not> load_more_data (decide_continuation md (merged sd resp recs td st' s))"
    using k by (rule decide_no_key)
  then have "crawl_while ev tid sl sd s
      = Some (Inr (decide_continuation md (merged sd resp recs td st' s)))"
    using crawl_while_stop [OF run b] by simp
  moreover have "requests (decide_continuation md (merged sd resp recs td st' s))
      = requests s @ [url_str (current_url s)]"
    by (simp add: decide_requests merged_fields)
  ultimately show "valid_value_from_dict md ''data-key'' = None
      \<and> (\<exists>s'. crawl_while ev tid sl sd s = Some (Inr s')
             \<and> requests s' = requests s @ [url_str (current_url s)]
             \<and> \<not> load_more_data s')"
    using k \<open>\<not> load_more_data (decide_continuation md (merged sd resp recs td st' s))\<close>
    by simp
  qed
qed

lemma c10_item:
  "fst (parse_raw_item_to_imdb_user_review ev_c10 ''tt1'' None None False (review_c10, []) st_pt)
     = Inr rec_c2"
  by code_simp

lemma c10_page:
  "fst (parse_raw_html_to_imdb_user_review_set_and_more_data ev_c10 ''tt1'' None None False
          ''page'' ''utf-8'' st_pt)
     = Inr ({}, [], [(''data-ajaxurl'', ''/title/tt1/_ajax'')])"
  by code_simp

lemma c10_nodes: "map fst (load_more_data_results (doc_c10, [])) = [load_more_c10]"
  by code_simp

theorem C10_empty_attribute_absent_witness:
  "valid_value_from_dict (attrib review_c10) ''data-review-id'' = None
   \<and> (\<exists>r. fst (parse_raw_item_to_imdb_user_review ev_c10 ''tt1'' None None False
               (review_c10, []) st_pt) = Inr r \<and> review_id r = None)
   \<and> (\<exists>s'. crawl_while ev_c10 ''tt1'' False None (initial_state ''tt1'' st_pt) = Some (Inr s')
          \<and> requests s' = [url_p1] \<and> \<not> load_more_data s')"
proof -
  let ?s0 = "initial_state ''tt1'' st_pt"
  let ?resp = "ok_response ''page''"
  obtain m where m: "load_more_data_results (doc_c10, []) = m # []" and fm: "fst m = load_more_c10"
    using c10_nodes by (cases "load_more_data_results (doc_c10, [])") auto
  note T = C10_empty_attribute_absent [where d = "attrib review_c10" and k = "''data-review-id''"
      and n = "(review_c10, [])" and ev = ev_c10 and tid = "''tt1''" and tn = None and tr = None
      and sl = False and st = st_pt and r = rec_c2 and s = ?s0 and resp = ?resp
      and root = "(doc_c10, [])" and m = m and ms = "[]" and recs = "{}" and td = "[]"
      and md = "[(''data-ajaxurl'', ''/title/tt1/_ajax'')]" and sd = None]
  have e1: "map_of (attrib review_c10) ''data-review-id'' = Some []"
    by (simp add: review_c10_def)
  have p1: "valid_value_from_dict (attrib review_c10) ''data-review-id'' = None"
    using T [THEN conjunct1] e1 by simp
  have p2: "review_id rec_c2 = None"
    using T [THEN conjunct2, THEN conjunct1] e1 c10_item by simp
  have f: "requests ?s0 = []" "known_title_name ?s0 = None" "known_title_relative_url ?s0 = None"
    "process ?s0 = st_pt" "load_more_data ?s0"
    by (simp_all add: initial_state_def)
  have g: "client_get ev_c10 (requests ?s0) (url_str (current_url ?s0)) = Inr ?resp"
    by (simp add: ev_c10_def)
  have o: "status_code ?resp < 400 \<or> 600 \<le> status_code ?resp"
    by (simp add: ok_response_def)
  have fs: "html_fromstring ev_c10 (resp_encoding ?resp) (resp_content ?resp) = Inr (doc_c10, [])"
    by (simp add: ev_c10_def)
  have e3: "map_of (attrib (fst m)) ''data-key'' = Some []"
    by (simp add: fm load_more_c10_def)
  have pg: "fst (parse_raw_html_to_imdb_user_review_set_and_more_data ev_c10 ''tt1''
      (known_title_name ?s0) (known_title_relative_url ?s0) False (resp_content ?resp)
      (resp_encoding ?resp) (process ?s0)) = Inr ({}, [], [(''data-ajaxurl'', ''/title/tt1/_ajax'')])"
    using c10_page by (simp add: f ok_response_def)
  have p3: "\<exists>s'. crawl_while ev_c10 ''tt1'' False None ?s0 = Some (Inr s')
      \<and> requests s' = requests ?s0 @ [url_str (current_url ?s0)] \<and> \<not> load_more_data s'"
    using T [THEN conjunct2, THEN conjunct2] f(5) g o fs m e3 pg by blast
  show ?thesis
    using p1 p2 p3 c10_item by (simp add: f url_initial)
qed

end
